theory Spec2Isabelle
  imports Complex_Main "HOL-Library.Multiset"
begin

section \<open>Strings\<close>

text \<open>
  A JavaScript string is a sequence of UTF-16 code units. The currency symbols that
  \<open>parseReceiptInfo\<close> looks for include U+20AC, which does not fit a byte, so a string is
  modelled as the list of its code units, each an integer. \<open>js\<close> embeds an ASCII
  literal.
\<close>

type_synonym cunit = int

type_synonym jstring = "cunit list"

definition js :: "string \<Rightarrow> jstring" where
  "js s = map of_char s"

text \<open>
  \<open>String.prototype.toLowerCase\<close> on the Basic Latin and Latin-1 ranges (A-Z, and
  U+00C0..U+00DE without the multiplication sign). Code units above U+00FF are left as they
  are: the full Unicode case tables are not part of this development.
\<close>

definition lowerUnit :: "cunit \<Rightarrow> cunit" where
  "lowerUnit c = (if (65 \<le> c \<and> c \<le> 90) \<or> (192 \<le> c \<and> c \<le> 222 \<and> c \<noteq> 215) then c + 32 else c)"

definition toLowerCase :: "jstring \<Rightarrow> jstring" where
  "toLowerCase s = map lowerUnit s"

text \<open>\<open>toUpperCase\<close> is only applied to text a regular expression matched as ASCII letters.\<close>

definition upperUnit :: "cunit \<Rightarrow> cunit" where
  "upperUnit c = (if 97 \<le> c \<and> c \<le> 122 then c - 32 else c)"

definition toUpperCase :: "jstring \<Rightarrow> jstring" where
  "toUpperCase s = map upperUnit s"

text \<open>White space and line terminators: what \<open>trim\<close> strips and what \<open>\s\<close> matches.\<close>

definition isWhite :: "cunit \<Rightarrow> bool" where
  "isWhite c = (c \<in> {9, 10, 11, 12, 13, 32, 160, 5760, 8232, 8233, 8239, 8287, 12288, 65279}
                \<or> (8192 \<le> c \<and> c \<le> 8202))"

definition trim :: "jstring \<Rightarrow> jstring" where
  "trim s = rev (dropWhile isWhite (rev (dropWhile isWhite s)))"

definition isDigit :: "cunit \<Rightarrow> bool" where
  "isDigit c = (48 \<le> c \<and> c \<le> 57)"

definition isLetter :: "cunit \<Rightarrow> bool" where
  "isLetter c = ((65 \<le> c \<and> c \<le> 90) \<or> (97 \<le> c \<and> c \<le> 122))"

text \<open>\<open>\w\<close>: letters, digits and the underscore.\<close>

definition isWordChar :: "cunit \<Rightarrow> bool" where
  "isWordChar c = (isLetter c \<or> isDigit c \<or> c = 95)"

fun startsWith :: "jstring \<Rightarrow> jstring \<Rightarrow> bool" where
  "startsWith t [] = True"
| "startsWith [] (p # ps) = False"
| "startsWith (c # cs) (p # ps) = (c = p \<and> startsWith cs ps)"

text \<open>\<open>String.prototype.includes\<close>.\<close>

fun includesStr :: "jstring \<Rightarrow> jstring \<Rightarrow> bool" where
  "includesStr [] s = (s = [])"
| "includesStr (c # cs) s = (startsWith (c # cs) s \<or> includesStr cs s)"

text \<open>\<open>String.prototype.split\<close> with a one-unit separator.\<close>

fun splitOn :: "cunit \<Rightarrow> jstring \<Rightarrow> jstring list" where
  "splitOn sep [] = [[]]"
| "splitOn sep (c # cs) =
     (if c = sep then [] # splitOn sep cs
      else (case splitOn sep cs of [] \<Rightarrow> [[c]] | seg # segs \<Rightarrow> (c # seg) # segs))"

text \<open>Reading an array element that may be absent (\<open>xs[i]\<close> is \<open>undefined\<close> out of range).\<close>

fun nthOpt :: "'a list \<Rightarrow> nat \<Rightarrow> 'a option" where
  "nthOpt [] i = None"
| "nthOpt (x # xs) 0 = Some x"
| "nthOpt (x # xs) (Suc i) = nthOpt xs i"

text \<open>\<open>a || b\<close> on optional strings: the empty string is falsy.\<close>

definition orElse :: "jstring option \<Rightarrow> jstring option \<Rightarrow> jstring option" where
  "orElse a b = (case a of Some s \<Rightarrow> (if s = [] then b else Some s) | None \<Rightarrow> b)"

definition truthy :: "jstring option \<Rightarrow> bool" where
  "truthy a = (case a of Some s \<Rightarrow> s \<noteq> [] | None \<Rightarrow> False)"

section \<open>Messages\<close>

datatype classification = Receipt | Sales | Support | Ignore

text \<open>
  \<open>PollMessage\<close>. The sender field is called \<open>from\<close> in the source. \<open>internal_ts\<close> is an epoch
  in milliseconds. The raw payload is only copied into rows and is left out.
\<close>

record pollMessage =
  account_email :: jstring
  message_id :: jstring
  thread_id :: "jstring option"
  subject :: "jstring option"
  sender :: "jstring option"
  snippet :: "jstring option"
  received_at :: "jstring option"
  internal_ts :: "int option"
  source_key :: jstring

text \<open>
  \<open>ClassificationResult\<close>. The confidence is the exact rational value of the source
  expression; the rounding of IEEE doubles is not modelled.
\<close>

record classificationResult =
  label :: classification
  confidence :: rat
  reasons :: "jstring list"

section \<open>Sender parsing\<close>

text \<open>
  \<open>rawFrom.match(/<([^>]+)>/)\<close>: the leftmost \<open><\<close> that is followed by at least one unit
  other than \<open>>\<close> and then a \<open>>\<close>; the result is the captured group.
\<close>

fun bracketMatch :: "jstring \<Rightarrow> jstring option" where
  "bracketMatch [] = None"
| "bracketMatch (c # cs) =
     (if c = 60 \<and> takeWhile (\<lambda>x. x \<noteq> 62) cs \<noteq> [] \<and> 62 \<in> set cs
      then Some (takeWhile (\<lambda>x. x \<noteq> 62) cs)
      else bracketMatch cs)"

text \<open>The character classes of \<open>/[A-Z0-9._%+-]+@[A-Z0-9.-]+\.[A-Z]{2,}/i\<close>.\<close>

definition isLocalChar :: "cunit \<Rightarrow> bool" where
  "isLocalChar c = (isLetter c \<or> isDigit c \<or> c \<in> {46, 95, 37, 43, 45})"

definition isDomainChar :: "cunit \<Rightarrow> bool" where
  "isDomainChar c = (isLetter c \<or> isDigit c \<or> c \<in> {46, 45})"

text \<open>
  The part after \<open>@\<close>: \<open>[A-Z0-9.-]+\<close> is greedy and gives units back until a dot followed
  by two letters is found, so the last such dot of the run (with at least one unit before it)
  is taken, and \<open>[A-Z]{2,}\<close> then takes every letter that follows.
\<close>

definition domainMatch :: "jstring \<Rightarrow> jstring option" where
  "domainMatch t =
     (let d = takeWhile isDomainChar t;
          ks = filter (\<lambda>k. d ! k = 46 \<and> k + 2 < length d
                            \<and> isLetter (d ! (k + 1)) \<and> isLetter (d ! (k + 2)))
                      (rev [1 ..< length d])
      in case ks of
           [] \<Rightarrow> None
         | k # _ \<Rightarrow> Some (take (k + 1) d @ takeWhile isLetter (drop (k + 1) d)))"

definition bareMatchAt :: "jstring \<Rightarrow> jstring option" where
  "bareMatchAt s =
     (let l = takeWhile isLocalChar s; r = dropWhile isLocalChar s
      in case r of
           [] \<Rightarrow> None
         | c # t \<Rightarrow>
             (if l \<noteq> [] \<and> c = 64
              then (case domainMatch t of None \<Rightarrow> None | Some d \<Rightarrow> Some (l @ [64] @ d))
              else None))"

text \<open>The leftmost start position at which the pattern matches.\<close>

fun bareMatch :: "jstring \<Rightarrow> jstring option" where
  "bareMatch [] = None"
| "bareMatch (c # cs) =
     (case bareMatchAt (c # cs) of Some m \<Rightarrow> Some m | None \<Rightarrow> bareMatch cs)"

definition extractEmailAddress :: "jstring option \<Rightarrow> jstring option" where
  "extractEmailAddress rawFrom =
     (case rawFrom of
        None \<Rightarrow> None
      | Some r \<Rightarrow>
          (if r = [] then None
           else (case bracketMatch r of
                   Some g \<Rightarrow> Some (toLowerCase (trim g))
                 | None \<Rightarrow> map_option toLowerCase (bareMatch r))))"

definition extractEmailDomain :: "jstring option \<Rightarrow> jstring option" where
  "extractEmailDomain email =
     (case email of
        None \<Rightarrow> None
      | Some e \<Rightarrow>
          (if e = [] \<or> \<not> includesStr e [64] then None
           else orElse (map_option (\<lambda>d. toLowerCase (trim d)) (nthOpt (splitOn 64 e) 1)) None))"

definition includesAny :: "jstring \<Rightarrow> jstring list \<Rightarrow> bool" where
  "includesAny t signals = list_ex (\<lambda>signal. includesStr t signal) signals"

text \<open>
  \<open>rawFrom.replace(/<[^>]+>/g, "")\<close>: every match of the bracket pattern is removed, scanning
  from the left and resuming after each match.
\<close>

function stripBrackets :: "jstring \<Rightarrow> jstring" where
  "stripBrackets [] = []"
| "stripBrackets (c # cs) =
     (if c = 60 \<and> takeWhile (\<lambda>x. x \<noteq> 62) cs \<noteq> [] \<and> 62 \<in> set cs
      then stripBrackets (tl (dropWhile (\<lambda>x. x \<noteq> 62) cs))
      else c # stripBrackets cs)"
  by pat_completeness auto
termination
proof (relation "measure length")
  show "wf (measure length)" by simp
next
  fix c :: cunit and cs :: jstring
  have "length (dropWhile (\<lambda>x. x \<noteq> 62) cs) \<le> length cs"
    by (rule length_dropWhile_le)
  then have "length (tl (dropWhile (\<lambda>x. x \<noteq> 62) cs)) \<le> length cs"
    by simp
  then show "(tl (dropWhile (\<lambda>x. x \<noteq> 62) cs), c # cs) \<in> measure length"
    by simp
next
  fix c :: cunit and cs :: jstring
  show "(cs, c # cs) \<in> measure length" by simp
qed

definition extractDisplayName :: "jstring option \<Rightarrow> jstring option" where
  "extractDisplayName rawFrom =
     (case rawFrom of
        None \<Rightarrow> None
      | Some r \<Rightarrow>
          (if r = [] then None
           else orElse (Some (trim (filter (\<lambda>x. x \<noteq> 34) (stripBrackets r)))) None))"

section \<open>The classifier\<close>

definition directInquirySignals :: "jstring list" where
  "directInquirySignals = map js
     [''i'' @ [CHR 0x27] @ ''m interested'', ''i am interested'', ''we are interested'',
      ''sponsorship inquiry'', ''consulting'', ''consultation'', ''advisor'', ''advisory'',
      ''fractional'', ''retainer'', ''can we'', ''could we'', ''book a call'',
      ''request a quote'', ''proposal'', ''pricing'', ''need help'', ''looking for'']"

definition automatedSenderSignals :: "jstring list" where
  "automatedSenderSignals = map js
     [''no-reply'', ''noreply'', ''do-not-reply'', ''notifications'', ''digest'',
      ''newsletter'', ''jobalerts'']"

definition automatedTextSignals :: "jstring list" where
  "automatedTextSignals = map js
     [''job alert'', ''jobs you may be interested'', ''recommended jobs'', ''linkedin jobs'',
      ''daily digest'', ''weekly digest'', ''unsubscribe'', ''manage preferences'']"

definition hiringSignals :: "jstring list" where
  "hiringSignals = map js
     [''hiring'', ''job opening'', ''apply now'', ''application'', ''recruiter'',
      ''career opportunity'', ''open role'', ''resume'']"

definition vendorSystemDomains :: "jstring list" where
  "vendorSystemDomains = map js
     [''linkedin.com'', ''indeed.com'', ''glassdoor.com'', ''ziprecruiter.com'', ''monster.com'',
      ''mail.linkedin.com'', ''mailchimp.com'', ''sendgrid.net'', ''stripe.com'', ''paypal.com'',
      ''quickbooks.com'', ''intuit.com'']"

definition jobNetworkDomains :: "jstring list" where
  "jobNetworkDomains = map js
     [''linkedin.com'', ''indeed.com'', ''glassdoor.com'', ''ziprecruiter.com'', ''monster.com'']"

definition receiptSignals :: "jstring list" where
  "receiptSignals = map js
     [''invoice'', ''receipt'', ''payment'', ''charged'', ''charge'', ''order #'',
      ''order confirmation'', ''billing'', ''subscription'', ''tax invoice'']"

definition salesSignals :: "jstring list" where
  "salesSignals = map js
     [''sponsorship'', ''partnership'', ''proposal'', ''quote'', ''pricing'', ''demo'',
      ''interested'', ''book a call'', ''campaign'', ''collaboration'']"

definition supportSignals :: "jstring list" where
  "supportSignals = map js
     [''support'', ''help'', ''issue'', ''error'', ''problem'', ''unable'', ''bug'']"

definition ignoreSignals :: "jstring list" where
  "ignoreSignals = map js
     [''unsubscribe'', ''newsletter'', ''promo'', ''promotion'', ''digest'', ''marketing update'']"

text \<open>The local constants of \<open>classifyInbound\<close>, in the order the source computes them.\<close>

definition orEmpty :: "jstring option \<Rightarrow> jstring" where
  "orEmpty a = (case a of Some s \<Rightarrow> s | None \<Rightarrow> [])"

definition messageText :: "pollMessage \<Rightarrow> jstring" where
  "messageText m =
     toLowerCase (orEmpty (subject m) @ [32] @ orEmpty (snippet m) @ [32] @ orEmpty (sender m))"

definition senderEmail :: "pollMessage \<Rightarrow> jstring option" where
  "senderEmail m = extractEmailAddress (sender m)"

definition senderDomain :: "pollMessage \<Rightarrow> jstring option" where
  "senderDomain m = extractEmailDomain (senderEmail m)"

definition hasDirectInquiry :: "pollMessage \<Rightarrow> bool" where
  "hasDirectInquiry m = includesAny (messageText m) directInquirySignals"

definition senderLocal :: "pollMessage \<Rightarrow> jstring" where
  "senderLocal m =
     (case senderEmail m of
        None \<Rightarrow> []
      | Some e \<Rightarrow> orEmpty (map_option (\<lambda>l. toLowerCase (trim l)) (nthOpt (splitOn 64 e) 0)))"

definition looksAutomated :: "pollMessage \<Rightarrow> bool" where
  "looksAutomated m =
     (includesAny (senderLocal m) automatedSenderSignals
      \<or> includesAny (messageText m) automatedTextSignals
      \<or> includesAny (messageText m) automatedSenderSignals)"

definition looksHiring :: "pollMessage \<Rightarrow> bool" where
  "looksHiring m = includesAny (messageText m) hiringSignals"

definition fromJobNetwork :: "pollMessage \<Rightarrow> bool" where
  "fromJobNetwork m =
     (case senderDomain m of None \<Rightarrow> False | Some d \<Rightarrow> d \<in> set jobNetworkDomains)"

definition fromVendorSystem :: "pollMessage \<Rightarrow> bool" where
  "fromVendorSystem m =
     (case senderDomain m of None \<Rightarrow> False | Some d \<Rightarrow> d \<in> set vendorSystemDomains)"

definition likelyNonHumanSender :: "pollMessage \<Rightarrow> bool" where
  "likelyNonHumanSender m = (looksAutomated m \<or> fromJobNetwork m \<or> fromVendorSystem m)"

definition countSignals :: "jstring \<Rightarrow> jstring list \<Rightarrow> nat" where
  "countSignals t signals = fold (\<lambda>signal count. if includesStr t signal then count + 1 else count) signals 0"

definition receiptScore :: "pollMessage \<Rightarrow> nat" where
  "receiptScore m = countSignals (messageText m) receiptSignals"

definition salesScore :: "pollMessage \<Rightarrow> nat" where
  "salesScore m = countSignals (messageText m) salesSignals"

definition supportScore :: "pollMessage \<Rightarrow> nat" where
  "supportScore m = countSignals (messageText m) supportSignals"

definition ignoreScore :: "pollMessage \<Rightarrow> nat" where
  "ignoreScore m = countSignals (messageText m) ignoreSignals"

definition classifyInbound :: "pollMessage \<Rightarrow> classificationResult" where
  "classifyInbound m =
     (if (likelyNonHumanSender m \<or> looksHiring m) \<and> \<not> hasDirectInquiry m
      then \<lparr>label = Ignore, confidence = 94 / 100,
            reasons = [js ''non-business-automation-filter'']\<rparr>
      else if receiptScore m > 0 \<and> receiptScore m \<ge> salesScore m
      then \<lparr>label = Receipt,
            confidence = min (65 / 100 + of_nat (receiptScore m) * (8 / 100)) (96 / 100),
            reasons = [js ''matched-receipt-signals'']\<rparr>
      else if salesScore m > 0
      then (if \<not> hasDirectInquiry m \<or> likelyNonHumanSender m \<or> looksHiring m
            then \<lparr>label = Ignore, confidence = 9 / 10,
                  reasons = [js ''sales-needs-human-direct-inquiry'']\<rparr>
            else \<lparr>label = Sales,
                  confidence = min (62 / 100 + of_nat (salesScore m) * (7 / 100)) (95 / 100),
                  reasons = [js ''matched-sales-signals'']\<rparr>)
      else if supportScore m > 0
      then \<lparr>label = Support,
            confidence = min (58 / 100 + of_nat (supportScore m) * (8 / 100)) (9 / 10),
            reasons = [js ''matched-support-signals'']\<rparr>
      else if ignoreScore m > 0
      then \<lparr>label = Ignore,
            confidence = min (6 / 10 + of_nat (ignoreScore m) * (8 / 100)) (92 / 100),
            reasons = [js ''matched-ignore-signals'']\<rparr>
      else \<lparr>label = Ignore, confidence = 52 / 100, reasons = [js ''no-strong-signal'']\<rparr>)"

section \<open>Time stamps\<close>

text \<open>
  What can abort a run: every \<open>throw\<close> of the source (a missing activity or draft
  identifier, a reply of the persistence service that is not ok, with its status), and every
  exception of a platform call the source does not catch (an invalid date, a rejected
  \<open>fetch\<close>, a body that is not JSON, a property read on \<open>null\<close>).
\<close>

datatype error =
    RangeError
  | MissingActivityId jstring
  | MissingDraftId jstring
  | SupabaseFailed nat
  | FetchFailed
  | JsonFailed
  | TypeErrorOfNull

text \<open>Days since the epoch to year, month and day of the proleptic Gregorian calendar.\<close>

definition civilFromDays :: "int \<Rightarrow> int \<times> int \<times> int" where
  "civilFromDays days =
     (let z = days + 719468;
          era = z div 146097;
          doe = z mod 146097;
          yoe = (doe - doe div 1460 + doe div 36524 - doe div 146096) div 365;
          doy = doe - (365 * yoe + yoe div 4 - yoe div 100);
          mp = (5 * doy + 2) div 153;
          d = doy - (153 * mp + 2) div 5 + 1;
          mo = (if mp < 10 then mp + 3 else mp - 9);
          y = yoe + era * 400 + (if mo \<le> 2 then 1 else 0)
      in (y, mo, d))"

text \<open>The last \<open>n\<close> decimal digits of a number that is not negative, as code units.\<close>

fun padDigits :: "nat \<Rightarrow> int \<Rightarrow> jstring" where
  "padDigits 0 v = []"
| "padDigits (Suc n) v = padDigits n (v div 10) @ [48 + v mod 10]"

text \<open>
  \<open>new Date(t).toISOString()\<close> for an integral epoch in milliseconds. A time value beyond
  8.64e15 in magnitude is an invalid date, for which \<open>toISOString\<close> throws a RangeError.
\<close>

definition toISOString :: "int \<Rightarrow> error + jstring" where
  "toISOString t =
     (if \<bar>t\<bar> > 8640000000000000 then Inl RangeError
      else (let days = t div 86400000;
                msInDay = t mod 86400000;
                (y, mo, d) = civilFromDays days;
                year = (if 0 \<le> y \<and> y \<le> 9999 then padDigits 4 y
                        else (if y < 0 then [45] else [43]) @ padDigits 6 \<bar>y\<bar>)
            in Inr (year @ [45] @ padDigits 2 mo @ [45] @ padDigits 2 d @ [84]
                    @ padDigits 2 (msInDay div 3600000) @ [58]
                    @ padDigits 2 ((msInDay div 60000) mod 60) @ [58]
                    @ padDigits 2 ((msInDay div 1000) mod 60) @ [46]
                    @ padDigits 3 (msInDay mod 1000) @ [90])))"

text \<open>
  \<open>message.received_at || (message.internal_ts ? new Date(message.internal_ts).toISOString()
  : undefined)\<close>: an empty \<open>received_at\<close> and an epoch of zero are falsy.
\<close>

definition messageTs :: "pollMessage \<Rightarrow> error + jstring option" where
  "messageTs m =
     (if truthy (received_at m) then Inr (received_at m)
      else (case internal_ts m of
              None \<Rightarrow> Inr None
            | Some t \<Rightarrow>
                (if t = 0 then Inr None
                 else (case toISOString t of Inl e \<Rightarrow> Inl e | Inr s \<Rightarrow> Inr (Some s)))))"

section \<open>The financial-record parser\<close>

record receiptInfo =
  vendor :: "jstring option"
  amount :: "rat option"
  currency :: "jstring option"
  receipt_date :: "jstring option"

text \<open>
  The numeric token \<open>[0-9][0-9,]*(?:\.[0-9]{2})?\<close> at the head of a string: a digit, the
  longest run of digits and commas, and a dot with two digits when they follow.
\<close>

definition numTok :: "jstring \<Rightarrow> jstring option" where
  "numTok s =
     (case s of
        [] \<Rightarrow> None
      | d # rest \<Rightarrow>
          (if isDigit d
           then (let run = takeWhile (\<lambda>c. isDigit c \<or> c = 44) rest;
                     after = dropWhile (\<lambda>c. isDigit c \<or> c = 44) rest
                 in Some (d # run @
                      (case after of
                         p # a # b # _ \<Rightarrow> (if p = 46 \<and> isDigit a \<and> isDigit b then [p, a, b] else [])
                       | _ \<Rightarrow> [])))
           else None))"

text \<open>
  \<open>text.match(/([$\<euro>\<pounds>])\s*([0-9][0-9,]*(?:\.[0-9]{2})?)/)\<close>: the leftmost currency symbol
  (U+0024, U+20AC, U+00A3) that white space and a numeric token follow; the result is the
  symbol and the token.
\<close>

fun symbolMatch :: "jstring \<Rightarrow> (cunit \<times> jstring) option" where
  "symbolMatch [] = None"
| "symbolMatch (c # cs) =
     (if c = 36 \<or> c = 8364 \<or> c = 163
      then (case numTok (dropWhile isWhite cs) of
              Some tok \<Rightarrow> Some (c, tok)
            | None \<Rightarrow> symbolMatch cs)
      else symbolMatch cs)"

definition currencyCodes :: "jstring list" where
  "currencyCodes = map js [''USD'', ''EUR'', ''GBP'', ''NGN'', ''CAD'', ''AUD'']"

text \<open>
  \<open>text.match(/\b(USD|EUR|GBP|NGN|CAD|AUD)\s*([0-9][0-9,]*(?:\.[0-9]{2})?)/i)\<close>. The first
  argument says whether the unit before the position is a word character: the code starts
  with a letter, so \<open>\b\<close> holds there exactly when it is not. The result is the code as
  written in the text and the token.
\<close>

fun codeMatchFrom :: "bool \<Rightarrow> jstring \<Rightarrow> (jstring \<times> jstring) option" where
  "codeMatchFrom prevWord [] = None"
| "codeMatchFrom prevWord (c # cs) =
     (if \<not> prevWord \<and> toUpperCase (take 3 (c # cs)) \<in> set currencyCodes
      then (case numTok (dropWhile isWhite (drop 3 (c # cs))) of
              Some tok \<Rightarrow> Some (take 3 (c # cs), tok)
            | None \<Rightarrow> codeMatchFrom (isWordChar c) cs)
      else codeMatchFrom (isWordChar c) cs)"

definition codeMatch :: "jstring \<Rightarrow> (jstring \<times> jstring) option" where
  "codeMatch s = codeMatchFrom False s"

text \<open>
  \<open>Number.parseFloat\<close> on a token with the commas removed: digits and an optional fraction.
  The result is the exact decimal value where a double would be finite (rounding to the
  nearest double is not modelled) and infinity from \<open>infinityThreshold\<close> on: that is
  \<open>2^1024 - 2^970\<close>, the least value that rounds to infinity, written out in decimal.
\<close>

datatype jsnumber = Finite rat | PosInfinity

definition digitsValue :: "jstring \<Rightarrow> int" where
  "digitsValue ds = foldl (\<lambda>acc d. 10 * acc + (d - 48)) 0 ds"

definition decimalValue :: "jstring \<Rightarrow> rat" where
  "decimalValue t =
     (let ip = takeWhile isDigit t;
          rest = dropWhile isDigit t;
          fp = (case rest of [] \<Rightarrow> [] | p # ds \<Rightarrow> (if p = 46 then takeWhile isDigit ds else []))
      in of_int (digitsValue ip) + of_int (digitsValue fp) / 10 ^ length fp)"

definition infinityThreshold :: rat where
  "infinityThreshold =
     179769313486231580793728971405303415079934132710037826936173778980444968292764750946649017977587207096330286416692887910946555547851940402630657488671505820681908902000708383676273854845817711531764475730270069855571366959622842914819860834936475292719074168444365510704342711559699508093042880177904174497792"

definition parseFloatToken :: "jstring \<Rightarrow> jsnumber" where
  "parseFloatToken tok =
     (let v = decimalValue (filter (\<lambda>c. c \<noteq> 44) tok)
      in if v < infinityThreshold then Finite v else PosInfinity)"

text \<open>\<open>Number.isFinite(amount ?? Number.NaN) ? amount : undefined\<close>.\<close>

definition finiteAmount :: "jsnumber option \<Rightarrow> rat option" where
  "finiteAmount a = (case a of Some (Finite v) \<Rightarrow> Some v | _ \<Rightarrow> None)"

definition symbolCurrency :: "cunit \<Rightarrow> jstring option" where
  "symbolCurrency symbol =
     (if symbol = 36 then Some (js ''USD'')
      else if symbol = 8364 then Some (js ''EUR'')
      else if symbol = 163 then Some (js ''GBP'')
      else None)"

definition receiptText :: "pollMessage \<Rightarrow> jstring" where
  "receiptText m = orEmpty (subject m) @ [32] @ orEmpty (snippet m)"

definition parseAmountCurrency :: "jstring \<Rightarrow> jsnumber option \<times> jstring option" where
  "parseAmountCurrency t =
     (case symbolMatch t of
        Some (symbol, tok) \<Rightarrow> (Some (parseFloatToken tok), symbolCurrency symbol)
      | None \<Rightarrow>
          (case codeMatch t of
             Some (code, tok) \<Rightarrow> (Some (parseFloatToken tok), Some (toUpperCase code))
           | None \<Rightarrow> (None, None)))"

definition parseReceiptInfo :: "pollMessage \<Rightarrow> error + receiptInfo" where
  "parseReceiptInfo m =
     (let fromEmail = extractEmailAddress (sender m);
          v = orElse (case fromEmail of None \<Rightarrow> None | Some e \<Rightarrow> nthOpt (splitOn 64 e) 0)
                     (extractDisplayName (sender m));
          (a, c) = parseAmountCurrency (receiptText m)
      in case messageTs m of
           Inl e \<Rightarrow> Inl e
         | Inr receiptDate \<Rightarrow>
             Inr \<lparr>vendor = v, amount = finiteAmount a, currency = c, receipt_date = receiptDate\<rparr>)"

section \<open>Example messages\<close>

definition jobAlertMessage :: pollMessage where
  "jobAlertMessage =
     \<lparr>account_email = js ''info@promptcircle.com'', message_id = js ''m-1'', thread_id = None,
      subject = Some (js ''job alert: exciting opportunity''),
      sender = Some (js ''jobalerts@linkedin.com''),
      snippet = Some (js ''new invoice, product demo and support issue''),
      received_at = Some (js ''2024-01-01T00:00:00.000Z''), internal_ts = None,
      source_key = js ''info@promptcircle.com:m-1''\<rparr>"

definition receiptAndSalesMessage :: pollMessage where
  "receiptAndSalesMessage =
     \<lparr>account_email = js ''info@promptcircle.com'', message_id = js ''m-2'', thread_id = None,
      subject = Some (js ''Campaign invoice''),
      sender = Some (js ''Jane Doe <jane@acmeco.com>''),
      snippet = Some (js ''Receipt for your payment''),
      received_at = Some (js ''2024-01-02T00:00:00.000Z''), internal_ts = None,
      source_key = js ''info@promptcircle.com:m-2''\<rparr>"

definition noReplyPricingMessage :: pollMessage where
  "noReplyPricingMessage =
     \<lparr>account_email = js ''info@promptcircle.com'', message_id = js ''m-3'', thread_id = None,
      subject = Some (js ''New pricing and demo''),
      sender = Some (js ''no-reply@vendor.io''),
      snippet = None,
      received_at = Some (js ''2024-01-03T00:00:00.000Z''), internal_ts = None,
      source_key = js ''info@promptcircle.com:m-3''\<rparr>"

definition noReplyDemoMessage :: pollMessage where
  "noReplyDemoMessage =
     \<lparr>account_email = js ''info@promptcircle.com'', message_id = js ''m-4'', thread_id = None,
      subject = Some (js ''Product demo''),
      sender = Some (js ''noreply@vendor.io''),
      snippet = None,
      received_at = Some (js ''2024-01-04T00:00:00.000Z''), internal_ts = None,
      source_key = js ''info@promptcircle.com:m-4''\<rparr>"

definition invoiceMessage :: pollMessage where
  "invoiceMessage =
     \<lparr>account_email = js ''info@promptcircle.com'', message_id = js ''m-5'', thread_id = None,
      subject = Some (js ''Invoice #1029''),
      sender = Some (js ''billing@vendor.com''),
      snippet = Some (js ''Your payment of $240.00 has been charged''),
      received_at = Some (js ''2024-01-05T00:00:00.000Z''), internal_ts = None,
      source_key = js ''info@promptcircle.com:m-5''\<rparr>"

text \<open>A subject that quotes an amount of 310 digits: a one and 309 zeros.\<close>

definition hugeAmountMessage :: pollMessage where
  "hugeAmountMessage =
     \<lparr>account_email = js ''info@promptcircle.com'', message_id = js ''m-6'', thread_id = None,
      subject = Some (js ''$1'' @ replicate 309 48),
      sender = Some (js ''billing@vendor.com''),
      snippet = None,
      received_at = Some (js ''2024-01-06T00:00:00.000Z''), internal_ts = None,
      source_key = js ''info@promptcircle.com:m-6''\<rparr>"

definition codeAmountMessage :: pollMessage where
  "codeAmountMessage =
     \<lparr>account_email = js ''info@promptcircle.com'', message_id = js ''m-7'', thread_id = None,
      subject = Some (js ''Payment received''),
      sender = Some (js ''Acme Billing <accounts@acme.example>''),
      snippet = Some (js ''Total: eur 1,250.50 paid''),
      received_at = None, internal_ts = Some 1704067200000,
      source_key = js ''info@promptcircle.com:m-7''\<rparr>"

section \<open>Rows, replies and the services a run talks to\<close>

datatype jv =
    JNull
  | JBool bool
  | JNum rat
  | JStr jstring
  | JArr "jv list"
  | JObj "(jstring \<times> jv) list"

text \<open>
  A row (\<open>Record<string, unknown>\<close>) is a list of columns; reading a column takes its first
  binding. \<open>JSON.stringify\<close> drops a property whose value is \<open>undefined\<close>, so an optional
  value that is absent contributes no column to a request body.
\<close>

type_synonym row = "(jstring \<times> jv) list"

definition col :: "string \<Rightarrow> jv \<Rightarrow> row" where
  "col k v = [(js k, v)]"

definition optCol :: "string \<Rightarrow> jstring option \<Rightarrow> row" where
  "optCol k v = (case v of None \<Rightarrow> [] | Some s \<Rightarrow> [(js k, JStr s)])"

text \<open>\<open>typeof row.k === "string" ? row.k : undefined\<close>.\<close>

definition stringField :: "row \<Rightarrow> string \<Rightarrow> jstring option" where
  "stringField r k = (case map_of r (js k) of Some (JStr s) \<Rightarrow> Some s | _ \<Rightarrow> None)"

text \<open>\<open>a || d\<close> with a default that is a string.\<close>

definition orDefault :: "jstring option \<Rightarrow> jstring \<Rightarrow> jstring" where
  "orDefault a d = (case a of Some s \<Rightarrow> (if s = [] then d else s) | None \<Rightarrow> d)"

text \<open>
  The six tables. Their names come from the environment, with the defaults
  \<open>crm_job_runs\<close>, \<open>crm_contacts\<close>, \<open>crm_activities\<close>, \<open>crm_drafts\<close>, \<open>accounting_entries\<close>
  and \<open>crm_poll_state\<close>; they are taken to be six different tables.
\<close>

datatype table = JobRuns | Contacts | Activities | Drafts | Accounting | PollState

text \<open>
  What a \<open>fetch\<close> gives: the promise is rejected (a transport error), or there is a
  response with a status and a body. Of the body only this is kept: it is blank, it is
  not JSON, or it is a JSON value.
\<close>

datatype body = Blank | Malformed | Json jv

datatype reply = Rejected | Reply nat body

definition responseOk :: "nat \<Rightarrow> bool" where
  "responseOk st = (200 \<le> st \<and> st \<le> 299)"

text \<open>
  The services and inputs of a run. The persistence service answers an upsert request
  (\<open>POST\<close> with \<open>on_conflict\<close> and \<open>Prefer: resolution=merge-duplicates,
  return=representation\<close>; table, conflict column, row) and a patch request (table, equality
  filters, patch), and has a state of type \<open>'w\<close>. The notification service answers a
  \<open>chat.postMessage\<close> request (token, channel, text). \<open>Date.parse\<close> gives a number of
  milliseconds or NaN (\<open>None\<close>); its grammar is left to the implementation, so it is an
  input. \<open>nowISO\<close> is what \<open>new Date().toISOString()\<close> returns; the clock is read as one
  value during a run. The draft composer (sender name, sender address, subject, snippet;
  gives subject and body) and the notification formatter (draft id, recipient, sender name,
  sender address, mailbox, subject, received time; gives the text) are inputs as well.
\<close>

record 'w env =
  upsertRequest :: "table \<Rightarrow> jstring \<Rightarrow> row \<Rightarrow> 'w \<Rightarrow> reply \<times> 'w"
  patchRequest :: "table \<Rightarrow> (jstring \<times> jstring) list \<Rightarrow> row \<Rightarrow> 'w \<Rightarrow> reply \<times> 'w"
  slackRequest :: "jstring \<Rightarrow> jstring \<Rightarrow> jstring \<Rightarrow> reply"
  dateParse :: "jstring \<Rightarrow> int option"
  nowISO :: jstring
  randomUUID :: jstring
  slackBotToken :: "jstring option"
  crmSlackChannelId :: "jstring option"
  slackChannelId :: "jstring option"
  crmSlackChannel :: "jstring option"
  buildSalesDraft ::
    "jstring option \<Rightarrow> jstring option \<Rightarrow> jstring option \<Rightarrow> jstring option \<Rightarrow> jstring \<times> jstring"
  buildDraftSlackMessage ::
    "jstring \<Rightarrow> jstring \<Rightarrow> jstring option \<Rightarrow> jstring option \<Rightarrow> jstring \<Rightarrow> jstring
       \<Rightarrow> jstring option \<Rightarrow> jstring"

section \<open>Requests\<close>

text \<open>
  \<open>supabaseRequest\<close>: the body is parsed before the status is looked at, and a blank body
  stands for an empty object.
\<close>

definition supabaseRequest :: "('w \<Rightarrow> reply \<times> 'w) \<Rightarrow> 'w \<Rightarrow> (error + jv) \<times> 'w" where
  "supabaseRequest fetch w =
     (let (rep, w') = fetch w
      in (case rep of
            Rejected \<Rightarrow> Inl FetchFailed
          | Reply st bd \<Rightarrow>
              (case bd of
                 Malformed \<Rightarrow> Inl JsonFailed
               | Blank \<Rightarrow> (if responseOk st then Inr (JObj []) else Inl (SupabaseFailed st))
               | Json v \<Rightarrow> (if responseOk st then Inr v else Inl (SupabaseFailed st))),
          w'))"

text \<open>
  \<open>getRecord\<close>: a truthy value of type object. An array is one; it has none of the columns
  a run reads.
\<close>

definition getRecord :: "jv \<Rightarrow> row option" where
  "getRecord v = (case v of JObj fs \<Rightarrow> Some fs | JArr xs \<Rightarrow> Some [] | _ \<Rightarrow> None)"

definition supabaseUpsertRow ::
    "'w env \<Rightarrow> table \<Rightarrow> string \<Rightarrow> row \<Rightarrow> 'w \<Rightarrow> (error + row) \<times> 'w" where
  "supabaseUpsertRow e t onConflict r w =
     (case supabaseRequest (upsertRequest e t (js onConflict) r) w of
        (Inl err, w') \<Rightarrow> (Inl err, w')
      | (Inr response, w') \<Rightarrow>
          (case response of
             JArr (x # xs) \<Rightarrow> (Inr (case getRecord x of Some fs \<Rightarrow> fs | None \<Rightarrow> r), w')
           | _ \<Rightarrow> (Inr r, w')))"

definition supabasePatchRows ::
    "'w env \<Rightarrow> table \<Rightarrow> (jstring \<times> jstring) list \<Rightarrow> row \<Rightarrow> 'w \<Rightarrow> (error + row list) \<times> 'w" where
  "supabasePatchRows e t filters patch w =
     (case supabaseRequest (patchRequest e t filters patch) w of
        (Inl err, w') \<Rightarrow> (Inl err, w')
      | (Inr response, w') \<Rightarrow>
          (case response of
             JArr xs \<Rightarrow> (Inr (List.map_filter getRecord xs), w')
           | _ \<Rightarrow> (Inr [], w')))"

text \<open>\<open>clean\<close>: trimmed, and absent when nothing is left.\<close>

definition clean :: "jstring option \<Rightarrow> jstring option" where
  "clean v = (case v of None \<Rightarrow> None | Some s \<Rightarrow> (if trim s = [] then None else Some (trim s)))"

text \<open>A natural number in decimal (a status in \<open>slack-error-<status>\<close>).\<close>

function decimalString :: "nat \<Rightarrow> jstring" where
  "decimalString n =
     (if n < 10 then [48 + int n] else decimalString (n div 10) @ [48 + int (n mod 10)])"
  by pat_completeness auto
termination
  by (relation "measure id") auto

declare decimalString.simps [simp del]

record slackOutcome =
  posted :: bool
  outcome_error :: "jstring option"

text \<open>
  \<open>maybePostSlack\<close>. Neither the \<open>fetch\<close> nor \<open>response.json()\<close> is inside a \<open>try\<close>: a
  rejected request and a body that is not JSON are exceptions of the caller, and so is
  reading \<open>ok\<close> of \<open>null\<close>.
\<close>

definition maybePostSlack :: "'w env \<Rightarrow> jstring \<Rightarrow> error + slackOutcome" where
  "maybePostSlack e msg =
     (let token = clean (slackBotToken e);
          channel = orElse (orElse (clean (crmSlackChannelId e)) (clean (slackChannelId e)))
                           (clean (crmSlackChannel e))
      in case (token, channel) of
           (Some tk, Some ch) \<Rightarrow>
             (case slackRequest e tk ch msg of
                Rejected \<Rightarrow> Inl FetchFailed
              | Reply st bd \<Rightarrow>
                  (case bd of
                     Blank \<Rightarrow> Inl JsonFailed
                   | Malformed \<Rightarrow> Inl JsonFailed
                   | Json JNull \<Rightarrow> Inl TypeErrorOfNull
                   | Json (JObj fs) \<Rightarrow>
                       (if responseOk st \<and> map_of fs (js ''ok'') = Some (JBool True)
                        then Inr \<lparr>posted = True, outcome_error = None\<rparr>
                        else Inr \<lparr>posted = False,
                                 outcome_error =
                                   Some (case map_of fs (js ''error'') of
                                           Some (JStr s) \<Rightarrow> s
                                         | _ \<Rightarrow> js ''slack-error-'' @ decimalString st)\<rparr>)
                   | Json _ \<Rightarrow>
                       Inr \<lparr>posted = False,
                            outcome_error = Some (js ''slack-error-'' @ decimalString st)\<rparr>))
         | _ \<Rightarrow>
             Inr \<lparr>posted = False,
                  outcome_error = Some (js ''CRM_SLACK_CHANNEL_ID or SLACK_BOT_TOKEN missing'')\<rparr>)"

section \<open>The run orchestrator\<close>

record perAccount =
  pa_account_email :: jstring
  pa_fetched_count :: "nat option"
  pa_error :: "jstring option"

record pollFile =
  poll_run_id :: "jstring option"
  poll_started_at :: "jstring option"
  partial_failure :: "bool option"
  messages :: "pollMessage list"
  per_account :: "perAccount list option"

text \<open>Of the guidance snapshot a run reads the degraded flag, the warnings and the hash.\<close>

record sopSnapshot =
  degraded :: "bool option"
  sop_warnings :: "jstring list option"
  sop_hash :: "jstring option"

record salesDraftEntry =
  draft_id :: jstring
  draft_activity_id :: jstring
  draft_account_email :: jstring
  to_email :: jstring
  slack_posted :: bool
  slack_error :: "jstring option"

record accountingEntry =
  entry_activity_id :: jstring
  entry_source_key :: jstring
  entry_vendor :: "jstring option"
  entry_amount :: "rat option"
  entry_currency :: "jstring option"

record pollStateUpdate =
  update_account_email :: jstring
  last_polled_at :: jstring
  last_message_ts :: "jstring option"

datatype runStatus = StatusOk | StatusPartialFailure

text \<open>
  \<open>ProcessResult\<close>, with the five totals and the four classification counts as fields of
  their own.
\<close>

record processResult =
  run_id :: jstring
  started_at :: jstring
  finished_at :: jstring
  status :: runStatus
  result_degraded :: bool
  polled_messages :: nat
  processed_messages :: nat
  activities_upserted :: nat
  drafts_upserted :: nat
  accounting_entries_upserted :: nat
  count_receipt :: nat
  count_sales :: nat
  count_support :: nat
  count_ignore :: nat
  sales_drafts :: "salesDraftEntry list"
  accounting_entries :: "accountingEntry list"
  poll_state_updates :: "pollStateUpdate list"
  warnings :: "jstring list"

text \<open>
  What the loop over the messages changes: the result and \<open>maxTsByAccount\<close>, a \<open>Map\<close>,
  kept in insertion order.
\<close>

record loopState =
  result :: processResult
  maxTsByAccount :: "(jstring \<times> jstring) list"

fun mapSet :: "jstring \<Rightarrow> jstring \<Rightarrow> (jstring \<times> jstring) list \<Rightarrow> (jstring \<times> jstring) list" where
  "mapSet k v [] = [(k, v)]"
| "mapSet k v ((k', v') # kvs) = (if k' = k then (k, v) # kvs else (k', v') # mapSet k v kvs)"

text \<open>\<open>Date.parse(a) > Date.parse(b)\<close>: false when either side is NaN.\<close>

definition parsesLater :: "(jstring \<Rightarrow> int option) \<Rightarrow> jstring \<Rightarrow> jstring \<Rightarrow> bool" where
  "parsesLater parse a b =
     (case (parse a, parse b) of (Some x, Some y) \<Rightarrow> x > y | _ \<Rightarrow> False)"

text \<open>The watermark step of the loop body, for a message of mailbox \<open>a\<close> with time stamp \<open>ts\<close>.\<close>

definition noteTs ::
    "(jstring \<Rightarrow> int option) \<Rightarrow> jstring \<Rightarrow> jstring option
       \<Rightarrow> (jstring \<times> jstring) list \<Rightarrow> (jstring \<times> jstring) list" where
  "noteTs parse a ts mp =
     (case ts of
        None \<Rightarrow> mp
      | Some t \<Rightarrow>
          (if t = [] then mp
           else (case map_of mp a of
                   None \<Rightarrow> mapSet a t mp
                 | Some prior \<Rightarrow>
                     (if prior = [] \<or> parsesLater parse t prior then mapSet a t mp else mp))))"

definition labelString :: "classification \<Rightarrow> jstring" where
  "labelString l =
     (case l of Receipt \<Rightarrow> js ''receipt'' | Sales \<Rightarrow> js ''sales''
              | Support \<Rightarrow> js ''support'' | Ignore \<Rightarrow> js ''ignore'')"

definition APPROVAL_HELP :: jstring where
  "APPROVAL_HELP =
     js ''Approve: /skill crm-inbound-orchestrator approve <draft_id>'' @ [10]
     @ js ''Revise: /skill crm-inbound-orchestrator revise <draft_id> <notes>'' @ [10]
     @ js ''Reject: /skill crm-inbound-orchestrator reject <draft_id> <reason>''"

definition hashOf :: "sopSnapshot option \<Rightarrow> jstring option" where
  "hashOf sop = (case sop of None \<Rightarrow> None | Some s \<Rightarrow> sop_hash s)"

definition contactPayload :: "'w env \<Rightarrow> pollMessage \<Rightarrow> jstring \<Rightarrow> jstring option \<Rightarrow> row" where
  "contactPayload e m email ts =
     col ''email'' (JStr email)
     @ optCol ''display_name'' (extractDisplayName (sender m))
     @ col ''last_seen_at'' (JStr (orDefault ts (nowISO e)))
     @ col ''source_account_email'' (JStr (account_email m))
     @ col ''updated_at'' (JStr (nowISO e))"

text \<open>
  The contact upsert of the loop body. The identifier of the returned row is read and kept
  when it is a string; nothing is thrown when it is not.
\<close>

definition contactStep ::
    "'w env \<Rightarrow> pollMessage \<Rightarrow> classificationResult \<Rightarrow> jstring option \<Rightarrow> 'w
       \<Rightarrow> (error + jstring option) \<times> 'w" where
  "contactStep e m cls ts w =
     (case senderEmail m of
        None \<Rightarrow> (Inr None, w)
      | Some email \<Rightarrow>
          (if email \<noteq> [] \<and> (label cls = Sales \<or> label cls = Support)
           then (case supabaseUpsertRow e Contacts ''email'' (contactPayload e m email ts) w of
                   (Inl err, w') \<Rightarrow> (Inl err, w')
                 | (Inr contact, w') \<Rightarrow> (Inr (stringField contact ''id''), w'))
           else (Inr None, w)))"

text \<open>The activity row, without the \<open>payload\<close> column (the raw message).\<close>

definition activityPayload ::
    "'w env \<Rightarrow> sopSnapshot option \<Rightarrow> pollMessage \<Rightarrow> classificationResult \<Rightarrow> jstring option
       \<Rightarrow> jstring option \<Rightarrow> row" where
  "activityPayload e sop m cls ts contactId =
     col ''source_key'' (JStr (source_key m))
     @ col ''account_email'' (JStr (account_email m))
     @ col ''message_id'' (JStr (message_id m))
     @ optCol ''thread_id'' (thread_id m)
     @ optCol ''from_raw'' (sender m)
     @ optCol ''from_email'' (senderEmail m)
     @ optCol ''from_name'' (extractDisplayName (sender m))
     @ optCol ''subject'' (subject m)
     @ optCol ''snippet'' (snippet m)
     @ optCol ''received_at'' ts
     @ col ''classification'' (JStr (labelString (label cls)))
     @ col ''classification_confidence'' (JNum (confidence cls))
     @ col ''classification_reasons'' (JArr (map JStr (reasons cls)))
     @ optCol ''contact_id'' contactId
     @ optCol ''contact_email'' (senderEmail m)
     @ optCol ''sop_hash'' (hashOf sop)
     @ col ''updated_at'' (JStr (nowISO e))"

definition activityStep ::
    "'w env \<Rightarrow> sopSnapshot option \<Rightarrow> pollMessage \<Rightarrow> classificationResult \<Rightarrow> jstring option
       \<Rightarrow> jstring option \<Rightarrow> 'w \<Rightarrow> (error + jstring) \<times> 'w" where
  "activityStep e sop m cls ts contactId w =
     (case supabaseUpsertRow e Activities ''source_key''
             (activityPayload e sop m cls ts contactId) w of
        (Inl err, w') \<Rightarrow> (Inl err, w')
      | (Inr activity, w') \<Rightarrow>
          (if truthy (stringField activity ''id'')
           then (Inr (orEmpty (stringField activity ''id'')), w')
           else (Inl (MissingActivityId (source_key m)), w')))"

definition draftPayload ::
    "'w env \<Rightarrow> sopSnapshot option \<Rightarrow> pollMessage \<Rightarrow> jstring \<Rightarrow> jstring \<Rightarrow> jstring \<times> jstring
       \<Rightarrow> row" where
  "draftPayload e sop m activityId toEmail draft =
     col ''activity_id'' (JStr activityId)
     @ col ''account_email'' (JStr (account_email m))
     @ col ''to_email'' (JStr toEmail)
     @ col ''subject'' (JStr (fst draft))
     @ col ''body'' (JStr (snd draft))
     @ col ''status'' (JStr (js ''draft''))
     @ col ''approval_commands'' (JStr APPROVAL_HELP)
     @ col ''reply_to_message_id'' (JStr (message_id m))
     @ optCol ''sop_hash'' (hashOf sop)
     @ col ''updated_at'' (JStr (nowISO e))"

text \<open>The sales branch of the loop body: draft upsert, patch, notification, report entry.\<close>

definition salesStep ::
    "'w env \<Rightarrow> sopSnapshot option \<Rightarrow> pollMessage \<Rightarrow> jstring option \<Rightarrow> jstring \<Rightarrow> 'w
       \<Rightarrow> (error + salesDraftEntry) \<times> 'w" where
  "salesStep e sop m ts activityId w =
     (let senderName = extractDisplayName (sender m);
          draft = buildSalesDraft e senderName (senderEmail m) (subject m) (snippet m);
          toEmail = orDefault (senderEmail m) (js ''unknown@example.com'')
      in case supabaseUpsertRow e Drafts ''activity_id''
                (draftPayload e sop m activityId toEmail draft) w of
           (Inl err, w1) \<Rightarrow> (Inl err, w1)
         | (Inr draftRow, w1) \<Rightarrow>
             (if \<not> truthy (stringField draftRow ''id'')
              then (Inl (MissingDraftId activityId), w1)
              else (let draftId = orEmpty (stringField draftRow ''id'');
                        slackText = buildDraftSlackMessage e draftId toEmail senderName
                                      (senderEmail m) (account_email m) (fst draft) ts
                    in case supabasePatchRows e Drafts [(js ''id'', draftId)]
                              (col ''slack_summary'' (JStr slackText)
                               @ col ''updated_at'' (JStr (nowISO e))) w1 of
                         (Inl err, w2) \<Rightarrow> (Inl err, w2)
                       | (Inr _, w2) \<Rightarrow>
                           (case maybePostSlack e slackText of
                              Inl err \<Rightarrow> (Inl err, w2)
                            | Inr slack \<Rightarrow>
                                (Inr \<lparr>draft_id = draftId, draft_activity_id = activityId,
                                      draft_account_email = account_email m, to_email = toEmail,
                                      slack_posted = posted slack,
                                      slack_error = outcome_error slack\<rparr>, w2)))))"

definition optNumCol :: "string \<Rightarrow> rat option \<Rightarrow> row" where
  "optNumCol k v = (case v of None \<Rightarrow> [] | Some x \<Rightarrow> [(js k, JNum x)])"

definition accountingPayload :: "'w env \<Rightarrow> pollMessage \<Rightarrow> jstring \<Rightarrow> receiptInfo \<Rightarrow> row" where
  "accountingPayload e m activityId parsed =
     col ''source_key'' (JStr (source_key m))
     @ col ''activity_id'' (JStr activityId)
     @ col ''account_email'' (JStr (account_email m))
     @ optCol ''vendor'' (vendor parsed)
     @ optNumCol ''amount'' (amount parsed)
     @ optCol ''currency'' (currency parsed)
     @ optCol ''receipt_date'' (receipt_date parsed)
     @ optCol ''subject'' (subject m)
     @ optCol ''snippet'' (snippet m)
     @ col ''updated_at'' (JStr (nowISO e))"

text \<open>The receipt branch of the loop body.\<close>

definition receiptStep ::
    "'w env \<Rightarrow> pollMessage \<Rightarrow> jstring \<Rightarrow> 'w \<Rightarrow> (error + accountingEntry) \<times> 'w" where
  "receiptStep e m activityId w =
     (case parseReceiptInfo m of
        Inl err \<Rightarrow> (Inl err, w)
      | Inr parsed \<Rightarrow>
          (case supabaseUpsertRow e Accounting ''source_key''
                  (accountingPayload e m activityId parsed) w of
             (Inl err, w') \<Rightarrow> (Inl err, w')
           | (Inr _, w') \<Rightarrow>
               (Inr \<lparr>entry_activity_id = activityId, entry_source_key = source_key m,
                     entry_vendor = vendor parsed, entry_amount = amount parsed,
                     entry_currency = currency parsed\<rparr>, w')))"

text \<open>The two label branches, after the activity upsert.\<close>

definition branchSteps ::
    "'w env \<Rightarrow> sopSnapshot option \<Rightarrow> pollMessage \<Rightarrow> classificationResult \<Rightarrow> jstring option
       \<Rightarrow> jstring \<Rightarrow> processResult \<Rightarrow> 'w \<Rightarrow> (error + processResult) \<times> 'w" where
  "branchSteps e sop m cls ts activityId r w =
     (case (if label cls = Sales
            then (case salesStep e sop m ts activityId w of
                    (Inl err, w1) \<Rightarrow> (Inl err, w1)
                  | (Inr entry, w1) \<Rightarrow>
                      (Inr (r\<lparr>sales_drafts := sales_drafts r @ [entry],
                              drafts_upserted := drafts_upserted r + 1\<rparr>), w1))
            else (Inr r, w)) of
        (Inl err, w1) \<Rightarrow> (Inl err, w1)
      | (Inr r1, w1) \<Rightarrow>
          (if label cls = Receipt
           then (case receiptStep e m activityId w1 of
                   (Inl err, w2) \<Rightarrow> (Inl err, w2)
                 | (Inr entry, w2) \<Rightarrow>
                     (Inr (r1\<lparr>accounting_entries := accounting_entries r1 @ [entry],
                              accounting_entries_upserted := accounting_entries_upserted r1 + 1\<rparr>),
                      w2))
           else (Inr r1, w1)))"

text \<open>\<open>result.classification_counts[classification.label] += 1\<close>.\<close>

definition countLabel :: "classification \<Rightarrow> processResult \<Rightarrow> processResult" where
  "countLabel l r =
     (case l of
        Receipt \<Rightarrow> r\<lparr>count_receipt := count_receipt r + 1\<rparr>
      | Sales \<Rightarrow> r\<lparr>count_sales := count_sales r + 1\<rparr>
      | Support \<Rightarrow> r\<lparr>count_support := count_support r + 1\<rparr>
      | Ignore \<Rightarrow> r\<lparr>count_ignore := count_ignore r + 1\<rparr>)"

text \<open>The body of the loop over \<open>poll.messages\<close>.\<close>

definition processMessage ::
    "'w env \<Rightarrow> sopSnapshot option \<Rightarrow> loopState \<Rightarrow> pollMessage \<Rightarrow> 'w
       \<Rightarrow> (error + loopState) \<times> 'w" where
  "processMessage e sop st m w =
     (let cls = classifyInbound m;
          r0 = countLabel (label cls) (result st)
      in case messageTs m of
           Inl err \<Rightarrow> (Inl err, w)
         | Inr ts \<Rightarrow>
             (let mp = noteTs (dateParse e) (account_email m) ts (maxTsByAccount st)
              in case contactStep e m cls ts w of
                   (Inl err, w1) \<Rightarrow> (Inl err, w1)
                 | (Inr contactId, w1) \<Rightarrow>
                     (case activityStep e sop m cls ts contactId w1 of
                        (Inl err, w2) \<Rightarrow> (Inl err, w2)
                      | (Inr activityId, w2) \<Rightarrow>
                          (case branchSteps e sop m cls ts activityId
                                  (r0\<lparr>activities_upserted := activities_upserted r0 + 1\<rparr>) w2 of
                             (Inl err, w3) \<Rightarrow> (Inl err, w3)
                           | (Inr r1, w3) \<Rightarrow>
                               (Inr \<lparr>result = r1\<lparr>processed_messages := processed_messages r1 + 1\<rparr>,
                                     maxTsByAccount = mp\<rparr>, w3)))))"

text \<open>The loop: an exception ends it, and the messages after it are not looked at.\<close>

fun processMessages ::
    "'w env \<Rightarrow> sopSnapshot option \<Rightarrow> loopState \<Rightarrow> pollMessage list \<Rightarrow> 'w
       \<Rightarrow> (error + loopState) \<times> 'w" where
  "processMessages e sop st [] w = (Inr st, w)"
| "processMessages e sop st (m # ms) w =
     (case processMessage e sop st m w of
        (Inl err, w') \<Rightarrow> (Inl err, w')
      | (Inr st', w') \<Rightarrow> processMessages e sop st' ms w')"

text \<open>\<open>accountSet\<close>: a \<open>Set\<close>, in insertion order.\<close>

definition addOnce :: "jstring list \<Rightarrow> jstring \<Rightarrow> jstring list" where
  "addOnce xs x = (if x \<in> set xs then xs else xs @ [x])"

definition accountSet :: "pollFile \<Rightarrow> jstring list" where
  "accountSet poll =
     foldl addOnce []
       (map account_email (messages poll)
        @ filter (\<lambda>a. a \<noteq> [])
            (map pa_account_email (case per_account poll of None \<Rightarrow> [] | Some ps \<Rightarrow> ps)))"

text \<open>The loop over the mailboxes: one watermark row each.\<close>

fun pollStateSteps ::
    "'w env \<Rightarrow> (jstring \<times> jstring) list \<Rightarrow> pollStateUpdate list \<Rightarrow> jstring list \<Rightarrow> 'w
       \<Rightarrow> (error + pollStateUpdate list) \<times> 'w" where
  "pollStateSteps e mp acc [] w = (Inr acc, w)"
| "pollStateSteps e mp acc (a # as) w =
     (case supabaseUpsertRow e PollState ''account_email''
             (col ''account_email'' (JStr a)
              @ col ''last_polled_at'' (JStr (nowISO e))
              @ optCol ''last_message_ts'' (map_of mp a)
              @ col ''updated_at'' (JStr (nowISO e))) w of
        (Inl err, w') \<Rightarrow> (Inl err, w')
      | (Inr _, w') \<Rightarrow>
          pollStateSteps e mp
            (acc @ [\<lparr>update_account_email = a, last_polled_at = nowISO e,
                     last_message_ts = map_of mp a\<rparr>]) as w')"

definition isDegraded :: "sopSnapshot option \<Rightarrow> bool" where
  "isDegraded sop = (case sop of None \<Rightarrow> False | Some s \<Rightarrow> degraded s = Some True)"

definition initialWarnings :: "sopSnapshot option \<Rightarrow> jstring list" where
  "initialWarnings sop =
     (case sop of
        None \<Rightarrow> [js ''No SOP snapshot found; continuing with default routing behavior.'']
      | Some s \<Rightarrow>
          (if degraded s = Some True
           then (case sop_warnings s of None \<Rightarrow> [] | Some ws \<Rightarrow> ws)
           else []))"

definition runRow :: "'w env \<Rightarrow> pollFile \<Rightarrow> sopSnapshot option \<Rightarrow> jstring \<Rightarrow> row" where
  "runRow e poll sop runId =
     col ''id'' (JStr runId)
     @ col ''started_at'' (JStr (orDefault (poll_started_at poll) (nowISO e)))
     @ col ''status'' (JStr (js ''running''))
     @ col ''degraded'' (JBool (isDegraded sop))
     @ col ''poll_partial_failure'' (JBool (partial_failure poll = Some True))
     @ col ''metrics'' (JObj (col ''polled_messages'' (JNum (of_nat (length (messages poll))))))
     @ col ''accounts''
         (JArr (map (\<lambda>p. JObj (col ''account_email'' (JStr (pa_account_email p))
                               @ optNumCol ''fetched_count'' (map_option of_nat (pa_fetched_count p))
                               @ optCol ''error'' (pa_error p)))
                  (case per_account poll of None \<Rightarrow> [] | Some ps \<Rightarrow> ps)))
     @ col ''updated_at'' (JStr (nowISO e))"

definition initialResult :: "'w env \<Rightarrow> pollFile \<Rightarrow> sopSnapshot option \<Rightarrow> jstring \<Rightarrow> processResult" where
  "initialResult e poll sop runId =
     \<lparr>run_id = runId, started_at = nowISO e, finished_at = [], status = StatusOk,
      result_degraded = isDegraded sop,
      polled_messages = length (messages poll), processed_messages = 0,
      activities_upserted = 0, drafts_upserted = 0, accounting_entries_upserted = 0,
      count_receipt = 0, count_sales = 0, count_support = 0, count_ignore = 0,
      sales_drafts = [], accounting_entries = [], poll_state_updates = [],
      warnings = initialWarnings sop\<rparr>"

definition statusString :: "runStatus \<Rightarrow> jstring" where
  "statusString s = (case s of StatusOk \<Rightarrow> js ''ok'' | StatusPartialFailure \<Rightarrow> js ''partial_failure'')"

text \<open>The terminal status, as the source decides it after the watermark rows.\<close>

definition terminalStatus :: "pollFile \<Rightarrow> processResult \<Rightarrow> runStatus" where
  "terminalStatus poll r =
     (if partial_failure poll = Some True \<or> list_ex (\<lambda>entry. \<not> slack_posted entry) (sales_drafts r)
      then StatusPartialFailure else status r)"

definition finalPatch :: "'w env \<Rightarrow> processResult \<Rightarrow> row" where
  "finalPatch e r =
     col ''finished_at'' (JStr (finished_at r))
     @ col ''status'' (JStr (statusString (status r)))
     @ col ''degraded'' (JBool (result_degraded r))
     @ col ''metrics''
         (JObj (col ''polled_messages'' (JNum (of_nat (polled_messages r)))
                @ col ''processed_messages'' (JNum (of_nat (processed_messages r)))
                @ col ''activities_upserted'' (JNum (of_nat (activities_upserted r)))
                @ col ''drafts_upserted'' (JNum (of_nat (drafts_upserted r)))
                @ col ''accounting_entries_upserted'' (JNum (of_nat (accounting_entries_upserted r)))))
     @ col ''warnings'' (JArr (map JStr (warnings r)))
     @ col ''updated_at'' (JStr (nowISO e))"

text \<open>
  \<open>main\<close>, from the point where the poll file and the snapshot have been read: the run
  record, the loop over the messages, the watermark rows, the terminal status and the
  final patch of the run record. The result is what is written to the output file.
\<close>

definition main ::
    "'w env \<Rightarrow> pollFile \<Rightarrow> sopSnapshot option \<Rightarrow> 'w \<Rightarrow> (error + processResult) \<times> 'w" where
  "main e poll sop w =
     (let runId = orDefault (poll_run_id poll) (randomUUID e)
      in case supabaseUpsertRow e JobRuns ''id'' (runRow e poll sop runId) w of
           (Inl err, w0) \<Rightarrow> (Inl err, w0)
         | (Inr _, w0) \<Rightarrow>
             (case processMessages e sop
                     \<lparr>result = initialResult e poll sop runId, maxTsByAccount = []\<rparr>
                     (messages poll) w0 of
                (Inl err, w1) \<Rightarrow> (Inl err, w1)
              | (Inr st, w1) \<Rightarrow>
                  (case pollStateSteps e (maxTsByAccount st) [] (accountSet poll) w1 of
                     (Inl err, w2) \<Rightarrow> (Inl err, w2)
                   | (Inr updates, w2) \<Rightarrow>
                       (let r1 = (result st)\<lparr>poll_state_updates := updates\<rparr>;
                            r2 = r1\<lparr>status := terminalStatus poll r1\<rparr>;
                            r3 = r2\<lparr>finished_at := nowISO e\<rparr>
                        in case supabasePatchRows e JobRuns [(js ''id'', runId)] (finalPatch e r3) w2 of
                             (Inl err, w3) \<Rightarrow> (Inl err, w3)
                           | (Inr _, w3) \<Rightarrow> (Inr r3, w3)))))"

text \<open>
  The watermark step seen from one mailbox: what \<open>noteTs\<close> makes of the stored value of
  that mailbox when one of its messages has the usable time stamp \<open>t\<close>.
\<close>

definition pick :: "(jstring \<Rightarrow> int option) \<Rightarrow> jstring option \<Rightarrow> jstring \<Rightarrow> jstring option" where
  "pick parse prior t =
     (case prior of
        None \<Rightarrow> Some t
      | Some p \<Rightarrow> (if p = [] \<or> parsesLater parse t p then Some t else Some p))"

text \<open>
  The usable time stamps of the messages of one mailbox, in the order of the batch: the
  words of the watermark claim.
\<close>

definition usableTs :: "pollMessage \<Rightarrow> jstring list" where
  "usableTs m = (case messageTs m of Inr (Some t) \<Rightarrow> [t] | _ \<Rightarrow> [])"

definition mailboxTimestamps :: "pollFile \<Rightarrow> jstring \<Rightarrow> jstring list" where
  "mailboxTimestamps poll a =
     concat (map usableTs (filter (\<lambda>m. account_email m = a) (messages poll)))"

section \<open>A persistence service and a date parser for the examples\<close>

text \<open>
  Modelled from the spec: the persistence service is not part of the source. The spec has
  six uniquely-keyed tables, each written through upsert-by-unique-key or patch-by-filter;
  the requests of the source ask for \<open>resolution=merge-duplicates\<close> and
  \<open>return=representation\<close>. So an upsert whose row has the value of an existing row in the
  conflict column replaces, in that row, the columns the request carries, and otherwise
  appends the row, with a fresh string identifier when it brings none; a patch changes the
  columns it carries in every row that passes all filters; both answer with the rows as
  stored. A null or absent value conflicts with nothing.
\<close>

record store =
  rowsOf :: "table \<Rightarrow> row list"
  nextId :: nat

definition conflicts :: "jstring \<Rightarrow> row \<Rightarrow> row \<Rightarrow> bool" where
  "conflicts c p r =
     (case map_of p c of None \<Rightarrow> False | Some JNull \<Rightarrow> False | Some v \<Rightarrow> map_of r c = Some v)"

text \<open>The merged row reads a column from the request first and from the stored row next.\<close>

fun mergeFirst :: "(row \<Rightarrow> bool) \<Rightarrow> row \<Rightarrow> row list \<Rightarrow> (row \<times> row list) option" where
  "mergeFirst P p [] = None"
| "mergeFirst P p (r # rs) =
     (if P r then Some (p @ r, (p @ r) # rs)
      else (case mergeFirst P p rs of None \<Rightarrow> None | Some (x, rs') \<Rightarrow> Some (x, r # rs')))"

definition storeUpsert :: "table \<Rightarrow> jstring \<Rightarrow> row \<Rightarrow> store \<Rightarrow> reply \<times> store" where
  "storeUpsert t c p w =
     (case mergeFirst (conflicts c p) p (rowsOf w t) of
        Some (x, rs') \<Rightarrow> (Reply 200 (Json (JArr [JObj x])), w\<lparr>rowsOf := (rowsOf w)(t := rs')\<rparr>)
      | None \<Rightarrow>
          (let x = (if map_of p (js ''id'') = None
                    then p @ col ''id'' (JStr (js ''id-'' @ decimalString (nextId w)))
                    else p)
           in (Reply 201 (Json (JArr [JObj x])),
               w\<lparr>rowsOf := (rowsOf w)(t := rowsOf w t @ [x]), nextId := Suc (nextId w)\<rparr>)))"

definition passes :: "(jstring \<times> jstring) list \<Rightarrow> row \<Rightarrow> bool" where
  "passes filters r = list_all (\<lambda>(k, v). map_of r k = Some (JStr v)) filters"

definition storePatch ::
    "table \<Rightarrow> (jstring \<times> jstring) list \<Rightarrow> row \<Rightarrow> store \<Rightarrow> reply \<times> store" where
  "storePatch t filters patch w =
     (let rs' = map (\<lambda>r. if passes filters r then patch @ r else r) (rowsOf w t)
      in (Reply 200 (Json (JArr (map JObj (map (\<lambda>r. patch @ r) (filter (passes filters) (rowsOf w t)))))),
          w\<lparr>rowsOf := (rowsOf w)(t := rs')\<rparr>))"

definition emptyStore :: store where
  "emptyStore = \<lparr>rowsOf = (\<lambda>t. []), nextId = 1\<rparr>"

text \<open>
  \<open>Date.parse\<close> on the strings \<open>toISOString\<close> produces for the years 0 to 9999
  (\<open>YYYY-MM-DDTHH:mm:ss.sssZ\<close>); every other string counts as unparseable here. An
  implementation accepts more, so the properties below are proved for any parser and this
  one is used in examples.
\<close>

definition digitsOpt :: "jstring \<Rightarrow> int option" where
  "digitsOpt ds = (if ds \<noteq> [] \<and> list_all isDigit ds then Some (digitsValue ds) else None)"

definition daysFromCivil :: "int \<Rightarrow> int \<Rightarrow> int \<Rightarrow> int" where
  "daysFromCivil y mo d =
     (let y' = (if mo \<le> 2 then y - 1 else y);
          era = y' div 400;
          yoe = y' mod 400;
          doy = (153 * (if mo > 2 then mo - 3 else mo + 9) + 2) div 5 + d - 1;
          doe = yoe * 365 + yoe div 4 - yoe div 100 + doy
      in era * 146097 + doe - 719468)"

definition daysInMonth :: "int \<Rightarrow> int \<Rightarrow> int" where
  "daysInMonth y mo =
     (if mo = 2 then (if y mod 4 = 0 \<and> (y mod 100 \<noteq> 0 \<or> y mod 400 = 0) then 29 else 28)
      else if mo = 4 \<or> mo = 6 \<or> mo = 9 \<or> mo = 11 then 30 else 31)"

definition isoDateParse :: "jstring \<Rightarrow> int option" where
  "isoDateParse s =
     (if length s = 24 \<and> s ! 4 = 45 \<and> s ! 7 = 45 \<and> s ! 10 = 84 \<and> s ! 13 = 58
         \<and> s ! 16 = 58 \<and> s ! 19 = 46 \<and> s ! 23 = 90
      then (case (digitsOpt (take 4 s), digitsOpt (take 2 (drop 5 s)),
                  digitsOpt (take 2 (drop 8 s)), digitsOpt (take 2 (drop 11 s)),
                  digitsOpt (take 2 (drop 14 s)), digitsOpt (take 2 (drop 17 s)),
                  digitsOpt (take 3 (drop 20 s))) of
              (Some y, Some mo, Some d, Some h, Some mi, Some sec, Some ms) \<Rightarrow>
                (if 1 \<le> mo \<and> mo \<le> 12 \<and> 1 \<le> d \<and> d \<le> daysInMonth y mo
                    \<and> h \<le> 23 \<and> mi \<le> 59 \<and> sec \<le> 59
                 then Some ((((daysFromCivil y mo d * 24 + h) * 60 + mi) * 60 + sec) * 1000 + ms)
                 else None)
            | _ \<Rightarrow> None)
      else None)"

text \<open>
  An environment for the examples: the service above, the parser above, a fixed clock, a
  composer and a formatter that keep the subject and the draft identifier, one channel, and
  the bot token and the notification reply as given.
\<close>

definition exampleEnv :: "jstring option \<Rightarrow> reply \<Rightarrow> store env" where
  "exampleEnv token slackReply =
     \<lparr>upsertRequest = storeUpsert,
      patchRequest = storePatch,
      slackRequest = (\<lambda>tk ch msg. slackReply),
      dateParse = isoDateParse,
      nowISO = js ''2024-02-01T09:00:00.000Z'',
      randomUUID = js ''3f0c2a9e-0000-4000-8000-000000000001'',
      slackBotToken = token,
      crmSlackChannelId = Some (js ''C0123456789''),
      slackChannelId = None,
      crmSlackChannel = None,
      buildSalesDraft = (\<lambda>name email subj snip. (js ''Re: '' @ orEmpty subj, js ''Thanks for your message.'')),
      buildDraftSlackMessage =
        (\<lambda>draftId toEmail name email account subj ts. js ''CRM lead draft ready: '' @ draftId)\<rparr>"

definition consultingMessage :: pollMessage where
  "consultingMessage =
     \<lparr>account_email = js ''info@promptcircle.com'', message_id = js ''m-8'', thread_id = None,
      subject = Some (js ''Consulting inquiry''),
      sender = Some (js ''Jane Doe <jane@acmeco.com>''),
      snippet = Some (js ''We are interested in a retainer engagement, could we book a call?''),
      received_at = Some (js ''2024-01-08T00:00:00.000Z''), internal_ts = None,
      source_key = js ''info@promptcircle.com:m-8''\<rparr>"

definition examplePoll :: "bool option \<Rightarrow> pollMessage list \<Rightarrow> pollFile" where
  "examplePoll flag ms =
     \<lparr>poll_run_id = Some (js ''run-1''), poll_started_at = Some (js ''2024-02-01T08:59:00.000Z''),
      partial_failure = flag, messages = ms, per_account = None\<rparr>"

text \<open>A message of the mailbox \<open>info@promptcircle.com\<close> with a given \<open>received_at\<close>.\<close>

definition stampedMessage :: "string \<Rightarrow> string \<Rightarrow> pollMessage" where
  "stampedMessage mid ts =
     \<lparr>account_email = js ''info@promptcircle.com'', message_id = js mid, thread_id = None,
      subject = Some (js ''hello''), sender = None, snippet = None,
      received_at = Some (js ts), internal_ts = None,
      source_key = js ''info@promptcircle.com:'' @ js mid\<rparr>"

section \<open>Properties of the classifier\<close>

text \<open>
  C1. A message whose sender or text matches an automated-sender, automated-text, hiring,
  job-network-domain or vendor-system-domain signal, and whose text has no direct-inquiry
  phrase, is labelled \<open>ignore\<close> with confidence 0.94 and the single reason
  \<open>non-business-automation-filter\<close>, whatever the four lexicon scores are.
\<close>

theorem classifyInbound_automation_gate:
  assumes signal:
    "includesAny (senderLocal m) automatedSenderSignals
     \<or> includesAny (messageText m) automatedSenderSignals
     \<or> includesAny (messageText m) automatedTextSignals
     \<or> includesAny (messageText m) hiringSignals
     \<or> (\<exists>d. senderDomain m = Some d \<and> d \<in> set jobNetworkDomains)
     \<or> (\<exists>d. senderDomain m = Some d \<and> d \<in> set vendorSystemDomains)"
    and noInquiry: "\<not> includesAny (messageText m) directInquirySignals"
  shows "classifyInbound m =
           \<lparr>label = Ignore, confidence = 94 / 100,
            reasons = [js ''non-business-automation-filter'']\<rparr>"
proof -
  from signal have "likelyNonHumanSender m \<or> looksHiring m"
    by (auto simp add: likelyNonHumanSender_def looksAutomated_def looksHiring_def
          fromJobNetwork_def fromVendorSystem_def)
  moreover from noInquiry have "\<not> hasDirectInquiry m"
    by (simp add: hasDirectInquiry_def)
  ultimately show ?thesis
    by (simp add: classifyInbound_def)
qed

text \<open>
  The job-alert message of the specification, with receipt, sales and support keywords in
  its snippet.
\<close>

theorem classifyInbound_automation_gate_witness:
  "includesAny (senderLocal jobAlertMessage) automatedSenderSignals
   \<and> \<not> includesAny (messageText jobAlertMessage) directInquirySignals
   \<and> 0 < receiptScore jobAlertMessage
   \<and> 0 < salesScore jobAlertMessage
   \<and> 0 < supportScore jobAlertMessage
   \<and> classifyInbound jobAlertMessage =
       \<lparr>label = Ignore, confidence = 94 / 100,
        reasons = [js ''non-business-automation-filter'']\<rparr>"
proof -
  have s: "includesAny (senderLocal jobAlertMessage) automatedSenderSignals"
    by code_simp
  have n: "\<not> includesAny (messageText jobAlertMessage) directInquirySignals"
    by code_simp
  have r: "0 < receiptScore jobAlertMessage"
    by code_simp
  have a: "0 < salesScore jobAlertMessage"
    by code_simp
  have u: "0 < supportScore jobAlertMessage"
    by code_simp
  from s have "includesAny (senderLocal jobAlertMessage) automatedSenderSignals
     \<or> includesAny (messageText jobAlertMessage) automatedSenderSignals
     \<or> includesAny (messageText jobAlertMessage) automatedTextSignals
     \<or> includesAny (messageText jobAlertMessage) hiringSignals
     \<or> (\<exists>d. senderDomain jobAlertMessage = Some d \<and> d \<in> set jobNetworkDomains)
     \<or> (\<exists>d. senderDomain jobAlertMessage = Some d \<and> d \<in> set vendorSystemDomains)"
    by blast
  from classifyInbound_automation_gate [OF this n] s n r a u show ?thesis
    by blast
qed

text \<open>
  C5. A message that passes the gate, with a positive receipt score that is at least its
  sales score, is labelled \<open>receipt\<close> with confidence min(0.65 + 0.08 * score, 0.96): the
  receipt rule comes before the sales rule.
\<close>

theorem classifyInbound_receipt_first:
  assumes passes: "\<not> ((likelyNonHumanSender m \<or> looksHiring m) \<and> \<not> hasDirectInquiry m)"
    and positive: "0 < receiptScore m"
    and atLeast: "salesScore m \<le> receiptScore m"
  shows "classifyInbound m =
           \<lparr>label = Receipt,
            confidence = min (65 / 100 + 8 / 100 * of_nat (receiptScore m)) (96 / 100),
            reasons = [js ''matched-receipt-signals'']\<rparr>"
  using passes positive atLeast
  by (simp add: classifyInbound_def mult.commute)

theorem classifyInbound_receipt_first_witness:
  "\<not> ((likelyNonHumanSender receiptAndSalesMessage \<or> looksHiring receiptAndSalesMessage)
        \<and> \<not> hasDirectInquiry receiptAndSalesMessage)
   \<and> receiptScore receiptAndSalesMessage = 3
   \<and> salesScore receiptAndSalesMessage = 1
   \<and> classifyInbound receiptAndSalesMessage =
       \<lparr>label = Receipt, confidence = 89 / 100,
        reasons = [js ''matched-receipt-signals'']\<rparr>"
proof -
  have g: "\<not> ((likelyNonHumanSender receiptAndSalesMessage \<or> looksHiring receiptAndSalesMessage)
        \<and> \<not> hasDirectInquiry receiptAndSalesMessage)"
    by code_simp
  have r: "receiptScore receiptAndSalesMessage = 3"
    by code_simp
  have a: "salesScore receiptAndSalesMessage = 1"
    by code_simp
  have "classifyInbound receiptAndSalesMessage =
       \<lparr>label = Receipt,
        confidence = min (65 / 100 + 8 / 100 * of_nat (receiptScore receiptAndSalesMessage)) (96 / 100),
        reasons = [js ''matched-receipt-signals'']\<rparr>"
    using classifyInbound_receipt_first [of receiptAndSalesMessage] g r a by simp
  with g r a show ?thesis
    by simp
qed

text \<open>
  C6, as the code has it. The claim leaves the gate out: a message with a sales hit, no
  receipt hit, an automated sender and no direct-inquiry phrase never reaches the sales
  rule, the gate labels it first, with confidence 0.94 and the gate's reason.
\<close>

theorem classifyInbound_sales_downgrade_counterexample:
  "0 < salesScore noReplyDemoMessage
   \<and> receiptScore noReplyDemoMessage = 0
   \<and> \<not> hasDirectInquiry noReplyDemoMessage
   \<and> likelyNonHumanSender noReplyDemoMessage
   \<and> classifyInbound noReplyDemoMessage =
       \<lparr>label = Ignore, confidence = 94 / 100,
        reasons = [js ''non-business-automation-filter'']\<rparr>
   \<and> classifyInbound noReplyDemoMessage \<noteq>
       \<lparr>label = Ignore, confidence = 9 / 10,
        reasons = [js ''sales-needs-human-direct-inquiry'']\<rparr>"
  by code_simp

text \<open>
  C6, amended. A message that passes the gate, with a positive sales score and without
  receipt priority (no receipt hit, or fewer receipt hits than sales hits): if it has no
  direct-inquiry phrase, or its sender looked automated or hiring, it is labelled \<open>ignore\<close>
  with confidence 0.90 and reason \<open>sales-needs-human-direct-inquiry\<close>; otherwise \<open>sales\<close>
  with confidence min(0.62 + 0.07 * score, 0.95).
\<close>

theorem classifyInbound_sales_rule:
  assumes passes: "\<not> ((likelyNonHumanSender m \<or> looksHiring m) \<and> \<not> hasDirectInquiry m)"
    and positive: "0 < salesScore m"
    and noReceipt: "\<not> (0 < receiptScore m \<and> salesScore m \<le> receiptScore m)"
  shows "classifyInbound m =
           (if \<not> hasDirectInquiry m \<or> likelyNonHumanSender m \<or> looksHiring m
            then \<lparr>label = Ignore, confidence = 9 / 10,
                  reasons = [js ''sales-needs-human-direct-inquiry'']\<rparr>
            else \<lparr>label = Sales,
                  confidence = min (62 / 100 + 7 / 100 * of_nat (salesScore m)) (95 / 100),
                  reasons = [js ''matched-sales-signals'']\<rparr>)"
  using passes positive noReceipt
  by (auto simp add: classifyInbound_def mult.commute)

text \<open>
  A no-reply sender whose text mentions pricing and demo: \<open>pricing\<close> is itself a
  direct-inquiry phrase, so the gate lets the message through and the sales rule downgrades
  it.
\<close>

theorem classifyInbound_sales_rule_witness:
  "\<not> ((likelyNonHumanSender noReplyPricingMessage \<or> looksHiring noReplyPricingMessage)
        \<and> \<not> hasDirectInquiry noReplyPricingMessage)
   \<and> salesScore noReplyPricingMessage = 2
   \<and> receiptScore noReplyPricingMessage = 0
   \<and> likelyNonHumanSender noReplyPricingMessage
   \<and> classifyInbound noReplyPricingMessage =
       \<lparr>label = Ignore, confidence = 9 / 10,
        reasons = [js ''sales-needs-human-direct-inquiry'']\<rparr>"
proof -
  have d: "hasDirectInquiry noReplyPricingMessage"
    by code_simp
  have a: "salesScore noReplyPricingMessage = 2"
    by code_simp
  have r: "receiptScore noReplyPricingMessage = 0"
    by code_simp
  have l: "likelyNonHumanSender noReplyPricingMessage"
    by code_simp
  from classifyInbound_sales_rule [of noReplyPricingMessage] d a r l show ?thesis
    by simp
qed

section \<open>Properties of the financial-record parser\<close>

lemma infinityThreshold_power: "infinityThreshold = 2 ^ 1024 - 2 ^ 970"
  by (simp add: infinityThreshold_def)

lemma symbolMatch_symbol:
  "symbolMatch s = Some (c, tok) \<Longrightarrow> c = 36 \<or> c = 8364 \<or> c = 163"
  by (induction s) (auto split: if_splits option.splits)

lemma codeMatchFrom_code:
  "codeMatchFrom p s = Some (code, tok) \<Longrightarrow> toUpperCase code \<in> set currencyCodes"
  by (induction s arbitrary: p) (auto split: if_splits option.splits)

lemma finiteAmount_token:
  "finiteAmount (Some (parseFloatToken tok)) =
     (case parseFloatToken tok of Finite v \<Rightarrow> Some v | PosInfinity \<Rightarrow> None)"
  by (simp add: finiteAmount_def split: jsnumber.splits)

text \<open>
  C10, as the code has it. The amount goes through \<open>Number.isFinite\<close> and the currency
  does not: a numeric token too large for a double parses to infinity, the amount is dropped
  and the currency stays.
\<close>

theorem parseReceiptInfo_together_counterexample:
  "parseReceiptInfo hugeAmountMessage =
     Inr \<lparr>vendor = Some (js ''billing''), amount = None, currency = Some (js ''USD''),
          receipt_date = Some (js ''2024-01-06T00:00:00.000Z'')\<rparr>"
  by code_simp

text \<open>
  C10, amended. When the symbol pattern matches, the currency is the ISO code of the symbol
  (USD, EUR or GBP); otherwise, when the code pattern matches, it is the matched code in
  upper case, one of the six codes; in both cases the amount is the value of the numeric
  token when that value is finite as a double, and is unset when the token overflows, the
  currency staying set. When neither pattern matches both fields are unset. So the amount
  is never set without the currency.
\<close>

theorem parseReceiptInfo_amount_currency:
  assumes parsed: "parseReceiptInfo m = Inr r"
  shows "(\<forall>symbol tok. symbolMatch (receiptText m) = Some (symbol, tok) \<longrightarrow>
            currency r = symbolCurrency symbol
            \<and> currency r \<in> {Some (js ''USD''), Some (js ''EUR''), Some (js ''GBP'')}
            \<and> amount r = (case parseFloatToken tok of Finite v \<Rightarrow> Some v | PosInfinity \<Rightarrow> None))
       \<and> (\<forall>code tok. symbolMatch (receiptText m) = None
            \<and> codeMatch (receiptText m) = Some (code, tok) \<longrightarrow>
            currency r = Some (toUpperCase code)
            \<and> toUpperCase code \<in> set currencyCodes
            \<and> amount r = (case parseFloatToken tok of Finite v \<Rightarrow> Some v | PosInfinity \<Rightarrow> None))
       \<and> (symbolMatch (receiptText m) = None \<and> codeMatch (receiptText m) = None \<longrightarrow>
            amount r = None \<and> currency r = None)
       \<and> (amount r \<noteq> None \<longrightarrow> currency r \<noteq> None)"
proof -
  from parsed have ac:
    "(finiteAmount (fst (parseAmountCurrency (receiptText m))), snd (parseAmountCurrency (receiptText m)))
       = (amount r, currency r)"
    by (auto simp add: parseReceiptInfo_def Let_def split: sum.splits prod.splits)
  show ?thesis
  proof (cases "symbolMatch (receiptText m)")
    case (Some st)
    obtain symbol tok where st: "st = (symbol, tok)" by (cases st)
    from Some st have sym: "symbol = 36 \<or> symbol = 8364 \<or> symbol = 163"
      using symbolMatch_symbol by blast
    from Some st ac have "amount r = finiteAmount (Some (parseFloatToken tok))"
      and "currency r = symbolCurrency symbol"
      by (auto simp add: parseAmountCurrency_def)
    with Some st sym show ?thesis
      by (auto simp add: finiteAmount_token symbolCurrency_def)
  next
    case None
    show ?thesis
    proof (cases "codeMatch (receiptText m)")
      case (Some ct)
      obtain code tok where ct: "ct = (code, tok)" by (cases ct)
      from Some ct have "toUpperCase code \<in> set currencyCodes"
        using codeMatchFrom_code by (simp add: codeMatch_def)
      moreover from None Some ct ac have "amount r = finiteAmount (Some (parseFloatToken tok))"
        and "currency r = Some (toUpperCase code)"
        by (auto simp add: parseAmountCurrency_def)
      ultimately show ?thesis using None Some ct
        by (simp add: finiteAmount_token)
    next
      case None2: None
      from None None2 ac show ?thesis
        by (auto simp add: parseAmountCurrency_def finiteAmount_def)
    qed
  qed
qed

theorem parseReceiptInfo_amount_currency_witness:
  "parseReceiptInfo invoiceMessage =
     Inr \<lparr>vendor = Some (js ''billing''), amount = Some 240, currency = Some (js ''USD''),
          receipt_date = Some (js ''2024-01-05T00:00:00.000Z'')\<rparr>
   \<and> symbolMatch (receiptText invoiceMessage) = Some (36, js ''240.00'')
   \<and> parseReceiptInfo codeAmountMessage =
     Inr \<lparr>vendor = Some (js ''accounts''), amount = Some (2501 / 2), currency = Some (js ''EUR''),
          receipt_date = Some (js ''2024-01-01T00:00:00.000Z'')\<rparr>
   \<and> symbolMatch (receiptText codeAmountMessage) = None
   \<and> codeMatch (receiptText codeAmountMessage) = Some (js ''eur'', js ''1,250.50'')"
proof -
  have a: "parseReceiptInfo invoiceMessage =
     Inr \<lparr>vendor = Some (js ''billing''), amount = Some 240, currency = Some (js ''USD''),
          receipt_date = Some (js ''2024-01-05T00:00:00.000Z'')\<rparr>"
    by code_simp
  have b: "symbolMatch (receiptText invoiceMessage) = Some (36, js ''240.00'')"
    by code_simp
  have c: "parseReceiptInfo codeAmountMessage =
     Inr \<lparr>vendor = Some (js ''accounts''), amount = Some (2501 / 2), currency = Some (js ''EUR''),
          receipt_date = Some (js ''2024-01-01T00:00:00.000Z'')\<rparr>"
    by code_simp
  have d: "symbolMatch (receiptText codeAmountMessage) = None"
    by code_simp
  have e: "codeMatch (receiptText codeAmountMessage) = Some (js ''eur'', js ''1,250.50'')"
    by code_simp
  from parseReceiptInfo_amount_currency [OF a] parseReceiptInfo_amount_currency [OF c] a b c d e
  show ?thesis by blast
qed
section \<open>Properties of the run orchestrator\<close>

lemma countLabel_status: "status (countLabel l r) = status r"
  by (cases l) (simp_all add: countLabel_def)

lemma branchSteps_status:
  "branchSteps e sop m cls ts aid r w = (Inr r', w') \<Longrightarrow> status r' = status r"
  by (auto simp add: branchSteps_def split: if_splits prod.splits sum.splits)

lemma processMessage_status:
  "processMessage e sop st m w = (Inr st', w') \<Longrightarrow> status (result st') = status (result st)"
  by (auto simp add: processMessage_def Let_def countLabel_status
        split: sum.splits prod.splits dest!: branchSteps_status)

lemma processMessages_status:
  "processMessages e sop st ms w = (Inr st', w') \<Longrightarrow> status (result st') = status (result st)"
proof (induction ms arbitrary: st w)
  case Nil
  then show ?case by simp
next
  case (Cons m ms)
  then show ?case
    by (auto split: sum.splits prod.splits dest: processMessage_status)
qed

lemma main_Inr:
  assumes "main e poll sop w = (Inr r, w')"
  obtains st w0 w1 updates w2 where
    "processMessages e sop
       \<lparr>result = initialResult e poll sop (orDefault (poll_run_id poll) (randomUUID e)),
        maxTsByAccount = []\<rparr> (messages poll) w0 = (Inr st, w1)"
    and "pollStateSteps e (maxTsByAccount st) [] (accountSet poll) w1 = (Inr updates, w2)"
    and "r = (result st)\<lparr>poll_state_updates := updates,
               status := terminalStatus poll ((result st)\<lparr>poll_state_updates := updates\<rparr>),
               finished_at := nowISO e\<rparr>"
  using assms
  by (auto simp add: main_def Let_def split: prod.splits sum.splits)

lemma initialResult_status: "status (initialResult e poll sop runId) = StatusOk"
  by (simp add: initialResult_def)

lemma processMessage_maxTs:
  "processMessage e sop st m w = (Inr st', w') \<Longrightarrow>
     \<exists>ts. messageTs m = Inr ts
        \<and> maxTsByAccount st' = noteTs (dateParse e) (account_email m) ts (maxTsByAccount st)"
  by (auto simp add: processMessage_def Let_def split: sum.splits prod.splits)

lemma map_of_mapSet: "map_of (mapSet k v mp) a = (if a = k then Some v else map_of mp a)"
  by (induction mp) auto

text \<open>What one message does to the watermark of mailbox \<open>a\<close>.\<close>

lemma map_of_noteTs_other:
  "a \<noteq> k \<Longrightarrow> map_of (noteTs parse k ts mp) a = map_of mp a"
  by (auto simp add: noteTs_def map_of_mapSet split: option.splits)

lemma map_of_noteTs_None: "map_of (noteTs parse k None mp) a = map_of mp a"
  by (simp add: noteTs_def)

lemma map_of_noteTs_Some:
  "t \<noteq> [] \<Longrightarrow> map_of (noteTs parse k (Some t) mp) k =
     (case map_of mp k of
        None \<Rightarrow> Some t
      | Some prior \<Rightarrow> (if prior = [] \<or> parsesLater parse t prior then Some t else Some prior))"
  by (auto simp add: noteTs_def map_of_mapSet split: option.splits)

lemma toISOString_nonempty: "toISOString t = Inr s \<Longrightarrow> s \<noteq> []"
  by (auto simp add: toISOString_def Let_def split: if_splits prod.splits)

lemma messageTs_nonempty: "messageTs m = Inr (Some t) \<Longrightarrow> t \<noteq> []"
  by (auto simp add: messageTs_def truthy_def split: if_splits option.splits sum.splits
        dest: toISOString_nonempty)

lemma processMessages_maxTs:
  "processMessages e sop st ms w = (Inr st', w') \<Longrightarrow>
     map_of (maxTsByAccount st') a =
       foldl (pick (dateParse e)) (map_of (maxTsByAccount st) a)
         (concat (map usableTs (filter (\<lambda>m. account_email m = a) ms)))"
proof (induction ms arbitrary: st w)
  case Nil
  then show ?case by simp
next
  case (Cons m ms)
  from Cons.prems obtain st1 w1 where
      step: "processMessage e sop st m w = (Inr st1, w1)"
      and rest: "processMessages e sop st1 ms w1 = (Inr st', w')"
    by (auto split: sum.splits prod.splits)
  from processMessage_maxTs [OF step] obtain ts where
      ts: "messageTs m = Inr ts"
      and mp: "maxTsByAccount st1 = noteTs (dateParse e) (account_email m) ts (maxTsByAccount st)"
    by blast
  have one: "map_of (maxTsByAccount st1) a =
      foldl (pick (dateParse e)) (map_of (maxTsByAccount st) a)
        (if account_email m = a then usableTs m else [])"
  proof (cases "account_email m = a")
    case False
    then show ?thesis by (simp add: mp map_of_noteTs_other)
  next
    case True
    show ?thesis
    proof (cases ts)
      case None
      with True ts show ?thesis by (simp add: mp map_of_noteTs_None usableTs_def)
    next
      case (Some t)
      with ts have "t \<noteq> []" by (simp add: messageTs_nonempty)
      with True Some ts show ?thesis
        by (simp add: mp map_of_noteTs_Some usableTs_def pick_def)
    qed
  qed
  from Cons.IH [OF rest] one show ?case
    by simp
qed

lemma pollStateSteps_updates:
  "pollStateSteps e mp acc accounts w = (Inr updates, w') \<Longrightarrow>
     updates = acc @ map (\<lambda>a. \<lparr>update_account_email = a, last_polled_at = nowISO e,
                                last_message_ts = map_of mp a\<rparr>) accounts"
proof (induction accounts arbitrary: acc w)
  case Nil
  then show ?case by simp
next
  case (Cons a as)
  from Cons.prems obtain w1 where
      "pollStateSteps e mp
         (acc @ [\<lparr>update_account_email = a, last_polled_at = nowISO e,
                  last_message_ts = map_of mp a\<rparr>]) as w1 = (Inr updates, w')"
    by (auto split: sum.splits prod.splits)
  from Cons.IH [OF this] show ?case
    by simp
qed

text \<open>The fold over the time stamps of one mailbox, when all of them parse.\<close>

lemma foldl_pick_max:
  assumes "\<forall>t \<in> set ts. t \<noteq> [] \<and> parse t \<noteq> None"
  shows "(ts = [] \<longrightarrow> foldl (pick parse) None ts = None)
       \<and> (ts \<noteq> [] \<longrightarrow> (\<exists>t \<in> set ts. foldl (pick parse) None ts = Some t
              \<and> parse t = Some (Max ((\<lambda>t. the (parse t)) ` set ts))))"
  using assms
proof (induction ts rule: rev_induct)
  case Nil
  then show ?case by simp
next
  case (snoc x xs)
  from snoc.prems have xs: "\<forall>t \<in> set xs. t \<noteq> [] \<and> parse t \<noteq> None"
    and x: "x \<noteq> []" "parse x \<noteq> None"
    by auto
  from x obtain vx where vx: "parse x = Some vx" by auto
  show ?case
  proof (cases "xs = []")
    case True
    then show ?thesis by (simp add: pick_def vx)
  next
    case False
    with snoc.IH [OF xs] obtain t where
        t: "t \<in> set xs" "foldl (pick parse) None xs = Some t"
        "parse t = Some (Max ((\<lambda>t. the (parse t)) ` set xs))"
      by blast
    let ?M = "Max ((\<lambda>t. the (parse t)) ` set xs)"
    from False have ne: "(\<lambda>t. the (parse t)) ` set xs \<noteq> {}" by simp
    have mx: "Max ((\<lambda>t. the (parse t)) ` set (xs @ [x])) = max vx ?M"
      using ne by (simp add: vx)
    from xs t(1) have tne: "t \<noteq> []" by blast
    show ?thesis
    proof (cases "vx > ?M")
      case True
      with t vx tne have "foldl (pick parse) None (xs @ [x]) = Some x"
        by (simp add: pick_def parsesLater_def)
      with True mx vx show ?thesis by (simp add: max_def)
    next
      case False
      with t vx tne have "foldl (pick parse) None (xs @ [x]) = Some t"
        by (simp add: pick_def parsesLater_def)
      with False mx t show ?thesis by (auto simp add: max_def)
    qed
  qed
qed

lemma mailboxTimestamps_set:
  "set (mailboxTimestamps poll a) =
     {t. \<exists>m \<in> set (messages poll). account_email m = a \<and> messageTs m = Inr (Some t)}"
  by (auto simp add: mailboxTimestamps_def usableTs_def split: sum.splits option.splits)

lemma mailboxTimestamps_nonempty: "t \<in> set (mailboxTimestamps poll a) \<Longrightarrow> t \<noteq> []"
  by (auto simp add: mailboxTimestamps_set dest: messageTs_nonempty)

lemma main_watermark:
  assumes run: "main e poll sop w = (Inr r, w')"
  shows "poll_state_updates r =
           map (\<lambda>a. \<lparr>update_account_email = a, last_polled_at = nowISO e,
                      last_message_ts = foldl (pick (dateParse e)) None (mailboxTimestamps poll a)\<rparr>)
               (accountSet poll)"
proof -
  from run obtain st w0 w1 updates w2 where
      loop: "processMessages e sop
               \<lparr>result = initialResult e poll sop (orDefault (poll_run_id poll) (randomUUID e)),
                maxTsByAccount = []\<rparr> (messages poll) w0 = (Inr st, w1)"
      and steps: "pollStateSteps e (maxTsByAccount st) [] (accountSet poll) w1 = (Inr updates, w2)"
      and r: "r = (result st)\<lparr>poll_state_updates := updates,
               status := terminalStatus poll ((result st)\<lparr>poll_state_updates := updates\<rparr>),
               finished_at := nowISO e\<rparr>"
    by (rule main_Inr)
  have "map_of (maxTsByAccount st) a = foldl (pick (dateParse e)) None (mailboxTimestamps poll a)" for a
    using processMessages_maxTs [OF loop, of a] by (simp add: mailboxTimestamps_def)
  with pollStateSteps_updates [OF steps] r show ?thesis
    by simp
qed

text \<open>
  C7. A run that reaches its end has status \<open>partial_failure\<close> exactly when the batch
  carried the partial-failure flag or the notification of some sales draft was not posted,
  and \<open>ok\<close> otherwise.
\<close>

theorem terminal_status:
  assumes run: "main e poll sop w = (Inr r, w')"
  shows "status r =
           (if partial_failure poll = Some True \<or> (\<exists>d \<in> set (sales_drafts r). \<not> slack_posted d)
            then StatusPartialFailure else StatusOk)"
proof -
  from run obtain st w0 w1 updates w2 where
      loop: "processMessages e sop
               \<lparr>result = initialResult e poll sop (orDefault (poll_run_id poll) (randomUUID e)),
                maxTsByAccount = []\<rparr> (messages poll) w0 = (Inr st, w1)"
      and r: "r = (result st)\<lparr>poll_state_updates := updates,
               status := terminalStatus poll ((result st)\<lparr>poll_state_updates := updates\<rparr>),
               finished_at := nowISO e\<rparr>"
    by (rule main_Inr)
  from processMessages_status [OF loop] have ok: "status (result st) = StatusOk"
    by (simp add: initialResult_status)
  from r have drafts: "sales_drafts r = sales_drafts (result st)"
    by simp
  from r have "status r = terminalStatus poll ((result st)\<lparr>poll_state_updates := updates\<rparr>)"
    by simp
  with ok drafts show ?thesis
    by (auto simp add: terminalStatus_def list_ex_iff)
qed

theorem terminal_status_witness:
  "(case fst (main (exampleEnv None Rejected) (examplePoll None [consultingMessage]) None emptyStore) of
      Inr r \<Rightarrow> map slack_posted (sales_drafts r) = [False] \<and> status r = StatusPartialFailure
    | Inl err \<Rightarrow> False)
   \<and> (case fst (main (exampleEnv None Rejected) (examplePoll (Some True) [invoiceMessage]) None emptyStore) of
      Inr r \<Rightarrow> sales_drafts r = [] \<and> status r = StatusPartialFailure
    | Inl err \<Rightarrow> False)
   \<and> (case fst (main (exampleEnv None Rejected) (examplePoll None [invoiceMessage]) None emptyStore) of
      Inr r \<Rightarrow> sales_drafts r = [] \<and> status r = StatusOk
    | Inl err \<Rightarrow> False)"
proof -
  let ?e = "exampleEnv None Rejected"
  have a: "(case fst (main ?e (examplePoll None [consultingMessage]) None emptyStore) of
      Inr r \<Rightarrow> map slack_posted (sales_drafts r) = [False] | Inl err \<Rightarrow> False)"
    by code_simp
  have b: "(case fst (main ?e (examplePoll (Some True) [invoiceMessage]) None emptyStore) of
      Inr r \<Rightarrow> sales_drafts r = [] | Inl err \<Rightarrow> False)"
    by code_simp
  have c: "(case fst (main ?e (examplePoll None [invoiceMessage]) None emptyStore) of
      Inr r \<Rightarrow> sales_drafts r = [] | Inl err \<Rightarrow> False)"
    by code_simp
  have flags: "partial_failure (examplePoll None [consultingMessage]) = None"
    "partial_failure (examplePoll (Some True) [invoiceMessage]) = Some True"
    "partial_failure (examplePoll None [invoiceMessage]) = None"
    by (simp_all add: examplePoll_def)
  have run: "\<And>poll r. fst (main ?e poll None emptyStore) = Inr r \<Longrightarrow>
      main ?e poll None emptyStore = (Inr r, snd (main ?e poll None emptyStore))"
    by (simp add: prod_eq_iff)
  from a obtain ra where ra: "fst (main ?e (examplePoll None [consultingMessage]) None emptyStore) = Inr ra"
      and da: "map slack_posted (sales_drafts ra) = [False]"
    by (auto split: sum.splits)
  from b obtain rb where rb: "fst (main ?e (examplePoll (Some True) [invoiceMessage]) None emptyStore) = Inr rb"
      and db: "sales_drafts rb = []"
    by (auto split: sum.splits)
  from c obtain rc where rc: "fst (main ?e (examplePoll None [invoiceMessage]) None emptyStore) = Inr rc"
      and dc: "sales_drafts rc = []"
    by (auto split: sum.splits)
  from da have "\<exists>d \<in> set (sales_drafts ra). \<not> slack_posted d"
    by (cases "sales_drafts ra") auto
  with terminal_status [OF run [OF ra]] have sa: "status ra = StatusPartialFailure"
    by simp
  from terminal_status [OF run [OF rb]] flags have sb: "status rb = StatusPartialFailure"
    by simp
  from terminal_status [OF run [OF rc]] flags dc have sc: "status rc = StatusOk"
    by simp
  from ra da sa rb db sb rc dc sc show ?thesis
    by simp
qed

text \<open>
  C8, as the code has it. A time stamp that does not parse compares as NaN: it is never
  replaced once stored and never replaces a stored one, so the watermark then depends on the
  order of the messages and need not be the latest.
\<close>

theorem watermark_unparseable_counterexample:
  "(case fst (main (exampleEnv None Rejected)
               (examplePoll None
                  [stampedMessage ''t-0'' ''not-a-date'',
                   stampedMessage ''t-2'' ''2024-03-02T10:00:00.000Z'']) None emptyStore) of
      Inr r \<Rightarrow> map last_message_ts (poll_state_updates r) = [Some (js ''not-a-date'')]
    | Inl err \<Rightarrow> False)
   \<and> (case fst (main (exampleEnv None Rejected)
               (examplePoll None
                  [stampedMessage ''t-2'' ''2024-03-02T10:00:00.000Z'',
                   stampedMessage ''t-0'' ''not-a-date'']) None emptyStore) of
      Inr r \<Rightarrow> map last_message_ts (poll_state_updates r) = [Some (js ''2024-03-02T10:00:00.000Z'')]
    | Inl err \<Rightarrow> False)"
  by code_simp

text \<open>
  C8, amended. When every usable time stamp of a mailbox's messages parses, the watermark
  recorded for the mailbox is one of them and its parse is the maximum of their parses (no
  watermark when there is none); so its parse is the same for every order of the messages.
\<close>

theorem watermark_is_latest:
  assumes run: "main e poll sop w = (Inr r, w')"
    and upd: "u \<in> set (poll_state_updates r)"
    and parses: "\<forall>t \<in> set (mailboxTimestamps poll (update_account_email u)). dateParse e t \<noteq> None"
  shows "(mailboxTimestamps poll (update_account_email u) = [] \<longrightarrow> last_message_ts u = None)
       \<and> (mailboxTimestamps poll (update_account_email u) \<noteq> [] \<longrightarrow>
            (\<exists>t \<in> set (mailboxTimestamps poll (update_account_email u)).
               last_message_ts u = Some t
               \<and> dateParse e t =
                   Some (Max ((\<lambda>t. the (dateParse e t))
                                ` set (mailboxTimestamps poll (update_account_email u))))))
       \<and> (\<forall>poll2 sop2 w2 r2 w2' u2.
            mset (messages poll2) = mset (messages poll)
            \<and> main e poll2 sop2 w2 = (Inr r2, w2')
            \<and> u2 \<in> set (poll_state_updates r2)
            \<and> update_account_email u2 = update_account_email u
            \<longrightarrow> map_option (dateParse e) (last_message_ts u2)
                  = map_option (dateParse e) (last_message_ts u))"
proof -
  let ?a = "update_account_email u"
  let ?T = "mailboxTimestamps poll ?a"
  from upd main_watermark [OF run]
  have u: "last_message_ts u = foldl (pick (dateParse e)) None ?T"
    by auto
  from parses have ok: "\<forall>t \<in> set ?T. t \<noteq> [] \<and> dateParse e t \<noteq> None"
    by (auto dest: mailboxTimestamps_nonempty)
  note first = foldl_pick_max [OF ok]
  have second: "map_option (dateParse e) (last_message_ts u2)
                  = map_option (dateParse e) (last_message_ts u)"
    if perm: "mset (messages poll2) = mset (messages poll)"
      and run2: "main e poll2 sop2 w2 = (Inr r2, w2')"
      and upd2: "u2 \<in> set (poll_state_updates r2)"
      and same: "update_account_email u2 = update_account_email u"
    for poll2 sop2 w2 r2 w2' u2
  proof -
    let ?T2 = "mailboxTimestamps poll2 ?a"
    from perm have "set (messages poll2) = set (messages poll)"
      by (rule mset_eq_setD)
    then have sets: "set ?T2 = set ?T"
      by (simp add: mailboxTimestamps_set)
    from upd2 same main_watermark [OF run2]
    have u2: "last_message_ts u2 = foldl (pick (dateParse e)) None ?T2"
      by auto
    from ok sets have ok2: "\<forall>t \<in> set ?T2. t \<noteq> [] \<and> dateParse e t \<noteq> None"
      by simp
    note snd = foldl_pick_max [OF ok2]
    show ?thesis
    proof (cases "?T = []")
      case True
      with sets have "?T2 = []" by simp
      with True u u2 show ?thesis by simp
    next
      case False
      with sets have "?T2 \<noteq> []" by auto
      with snd False first sets u u2 show ?thesis
        by auto
    qed
  qed
  from first u second show ?thesis
    by auto
qed

text \<open>Time stamps in the order T1, T3, T2 give the watermark T3.\<close>

theorem watermark_is_latest_witness:
  "(case fst (main (exampleEnv None Rejected)
               (examplePoll None
                  [stampedMessage ''t-1'' ''2024-03-01T10:00:00.000Z'',
                   stampedMessage ''t-3'' ''2024-03-03T10:00:00.000Z'',
                   stampedMessage ''t-2'' ''2024-03-02T10:00:00.000Z'']) None emptyStore) of
      Inr r \<Rightarrow> map update_account_email (poll_state_updates r) = [js ''info@promptcircle.com'']
              \<and> map last_message_ts (poll_state_updates r) = [Some (js ''2024-03-03T10:00:00.000Z'')]
    | Inl err \<Rightarrow> False)"
proof -
  let ?e = "exampleEnv None Rejected"
  let ?poll = "examplePoll None
                  [stampedMessage ''t-1'' ''2024-03-01T10:00:00.000Z'',
                   stampedMessage ''t-3'' ''2024-03-03T10:00:00.000Z'',
                   stampedMessage ''t-2'' ''2024-03-02T10:00:00.000Z'']"
  have ev: "(case fst (main ?e ?poll None emptyStore) of
      Inr r \<Rightarrow> map update_account_email (poll_state_updates r) = [js ''info@promptcircle.com'']
    | Inl err \<Rightarrow> False)"
    by code_simp
  then obtain r where r: "fst (main ?e ?poll None emptyStore) = Inr r"
      and accounts: "map update_account_email (poll_state_updates r) = [js ''info@promptcircle.com'']"
    by (auto split: sum.splits)
  then obtain u where us: "poll_state_updates r = [u]"
      and a: "update_account_email u = js ''info@promptcircle.com''"
    by auto
  have run: "main ?e ?poll None emptyStore = (Inr r, snd (main ?e ?poll None emptyStore))"
    using r by (simp add: prod_eq_iff)
  have T: "mailboxTimestamps ?poll (js ''info@promptcircle.com'') =
      [js ''2024-03-01T10:00:00.000Z'', js ''2024-03-03T10:00:00.000Z'',
       js ''2024-03-02T10:00:00.000Z'']"
    by code_simp
  have p: "isoDateParse (js ''2024-03-01T10:00:00.000Z'') = Some 1709287200000"
    "isoDateParse (js ''2024-03-03T10:00:00.000Z'') = Some 1709460000000"
    "isoDateParse (js ''2024-03-02T10:00:00.000Z'') = Some 1709373600000"
    by code_simp+
  have d: "dateParse ?e = isoDateParse"
    by (simp add: exampleEnv_def)
  have "u \<in> set (poll_state_updates r)"
    using us by simp
  moreover have "\<forall>t \<in> set (mailboxTimestamps ?poll (update_account_email u)). dateParse ?e t \<noteq> None"
    by (simp add: a T d p)
  ultimately have "last_message_ts u = Some (js ''2024-03-03T10:00:00.000Z'')"
    using watermark_is_latest [OF run, of u] by (auto simp add: a T d p)
  with r us accounts show ?thesis
    by simp
qed


end
